theory Spec2Isabelle
  imports Complex_Main "HOL-Library.AList"
begin

section \<open>JavaScript values\<close>

text \<open>
  The engine of \<^verbatim>\<open>src/lib/report.ts\<close> (second, current version in the file) and
  \<^verbatim>\<open>src/lib/coverage.ts\<close> is embedded function by function.

  Numbers are exact rationals: every number the engine computes with is finite (untrusted
  numbers pass \<^verbatim>\<open>Number.isFinite\<close> before use, every division is guarded by a positive
  divisor), and rounding of binary floating point is not modelled. Integer-valued fields
  (score, confidence, chosen level, counts) are \<open>int\<close> or \<open>nat\<close>.

  An untrusted payload is a JSON value as \<^verbatim>\<open>JSON.parse\<close> produces it. \<open>JNonFinite\<close> stands
  for a value of type number that \<^verbatim>\<open>Number.isFinite\<close> rejects. A property read that yields
  \<^verbatim>\<open>undefined\<close> is \<open>None\<close>.
\<close>

datatype json =
    JNull
  | JBool bool
  | JNum rat
  | JNonFinite
  | JStr string
  | JArr "json list"
  | JObj "(string \<times> json) list"

text \<open>Canonical array index of a property name (only \<^verbatim>\<open>"1"\<close> .. \<^verbatim>\<open>"5"\<close> are ever read
  by number; every other property name the engine reads is absent from arrays).\<close>

definition arrayIndexOfKey :: "string \<Rightarrow> nat option" where
  "arrayIndexOfKey k =
     (if k = ''0'' then Some 0 else if k = ''1'' then Some 1 else if k = ''2'' then Some 2
      else if k = ''3'' then Some 3 else if k = ''4'' then Some 4 else if k = ''5'' then Some 5
      else None)"

text \<open>\<^verbatim>\<open>value[k]\<close> for a value that passed \<^verbatim>\<open>isRecord\<close>.\<close>

fun getField :: "json \<Rightarrow> string \<Rightarrow> json option" where
  "getField (JObj fs) k = map_of fs k"
| "getField (JArr xs) k =
     (case arrayIndexOfKey k of
        Some i \<Rightarrow> (if i < length xs then Some (xs ! i) else None)
      | None \<Rightarrow> None)"
| "getField _ k = None"

text \<open>\<^verbatim>\<open>typeof value === "object" && value !== null\<close>: objects and arrays.\<close>

fun isRecord :: "json option \<Rightarrow> bool" where
  "isRecord (Some (JObj fs)) = True"
| "isRecord (Some (JArr xs)) = True"
| "isRecord _ = False"

text \<open>\<^verbatim>\<open>isRecord(x) ? x : {}\<close>\<close>

definition recordOrEmpty :: "json option \<Rightarrow> json" where
  "recordOrEmpty v = (if isRecord v then the v else JObj [])"

definition field :: "json option \<Rightarrow> string \<Rightarrow> json option" where
  "field v k = (case v of Some r \<Rightarrow> getField r k | None \<Rightarrow> None)"

section \<open>Strings\<close>

text \<open>Strings are lists of 8-bit characters; white space is the part of the ECMAScript
  WhiteSpace and LineTerminator sets that fits: TAB, LF, VT, FF, CR, SP, NBSP.\<close>

definition isWs :: "char \<Rightarrow> bool" where
  "isWs c = (of_char c \<in> {9::nat, 10, 11, 12, 13, 32, 160})"

definition trim :: "string \<Rightarrow> string" where
  "trim s = rev (dropWhile isWs (rev (dropWhile isWs s)))"

text \<open>\<^verbatim>\<open>xs.join(sep)\<close>\<close>

fun joinWith :: "string \<Rightarrow> string list \<Rightarrow> string" where
  "joinWith sep [] = []"
| "joinWith sep [x] = x"
| "joinWith sep (x # y # ys) = x @ sep @ joinWith sep (y # ys)"

text \<open>\<^verbatim>\<open>text.trim().split(/\s+/).map(w => w.trim()).filter(w => w.length > 0)\<close>:
  the maximal runs of non-white-space characters, left to right.\<close>

fun wordsFrom :: "string \<Rightarrow> string \<Rightarrow> string list" where
  "wordsFrom cur [] = (if cur = [] then [] else [cur])"
| "wordsFrom cur (c # cs) =
     (if isWs c then (if cur = [] then wordsFrom [] cs else cur # wordsFrom [] cs)
      else wordsFrom (cur @ [c]) cs)"

definition toMaxWords :: "string \<Rightarrow> nat \<Rightarrow> string" where
  "toMaxWords text maxWords =
     (let ws = wordsFrom [] text in
      if length ws \<le> maxWords then joinWith '' '' ws
      else joinWith '' '' (take maxWords ws) @ ''...'')"

text \<open>\<^verbatim>\<open>Array.from(new Set(xs))\<close>: first occurrences, in order.\<close>

definition uniq :: "'a list \<Rightarrow> 'a list" where
  "uniq xs = rev (remdups (rev xs))"

text \<open>Decimal digits of a natural number, and \<^verbatim>\<open>String(n)\<close> for an integer.\<close>

definition digitChar :: "nat \<Rightarrow> char" where
  "digitChar d = ''0123456789'' ! (d mod 10)"

fun digitsOf :: "nat \<Rightarrow> string" where
  "digitsOf n = (if n < 10 then [digitChar n] else digitsOf (n div 10) @ [digitChar n])"

declare digitsOf.simps [simp del]

definition intToString :: "int \<Rightarrow> string" where
  "intToString i = (if i < 0 then ''-'' @ digitsOf (nat (- i)) else digitsOf (nat i))"

text \<open>\<^verbatim>\<open>x.toFixed(f)\<close>: the integer \<open>n\<close> nearest to \<open>x * 10^f\<close> (the larger one on a tie),
  printed with \<open>f\<close> decimals; the sign is handled apart. (Values of \<open>10^21\<close> and more print
  otherwise in JavaScript; the engine formats scores in \<open>[0,5]\<close> and percentages in
  \<open>[0,100]\<close>.)\<close>

definition padLeft :: "nat \<Rightarrow> string \<Rightarrow> string" where
  "padLeft n s = replicate (n - length s) CHR ''0'' @ s"

definition toFixedAbs :: "rat \<Rightarrow> nat \<Rightarrow> string" where
  "toFixedAbs x f =
     (let n = nat \<lfloor>x * 10 ^ f + 1 / 2\<rfloor>;
          m = (if f = 0 then digitsOf n else padLeft (f + 1) (digitsOf n)) in
      if f = 0 then m
      else take (length m - f) m @ ''.'' @ drop (length m - f) m)"

definition toFixed :: "rat \<Rightarrow> nat \<Rightarrow> string" where
  "toFixed x f = (if x < 0 then ''-'' @ toFixedAbs (- x) f else toFixedAbs x f)"

section \<open>Coercions of untrusted values\<close>

definition isNonEmptyString :: "json option \<Rightarrow> bool" where
  "isNonEmptyString v = (case v of Some (JStr s) \<Rightarrow> length (trim s) > 0 | _ \<Rightarrow> False)"

definition isString :: "json option \<Rightarrow> bool" where
  "isString v = (case v of Some (JStr s) \<Rightarrow> True | _ \<Rightarrow> False)"

definition isFiniteNumber :: "json option \<Rightarrow> bool" where
  "isFiniteNumber v = (case v of Some (JNum n) \<Rightarrow> True | _ \<Rightarrow> False)"

definition isArray :: "json option \<Rightarrow> bool" where
  "isArray v = (case v of Some (JArr xs) \<Rightarrow> True | _ \<Rightarrow> False)"

text \<open>The elements of a value that passed \<^verbatim>\<open>Array.isArray\<close> (none otherwise).\<close>

definition elems :: "json option \<Rightarrow> json list" where
  "elems v = (case v of Some (JArr xs) \<Rightarrow> xs | _ \<Rightarrow> [])"

text \<open>\<^verbatim>\<open>Math.min(max, Math.max(min, value))\<close>, on rationals and on integers; the guard
  on non-finite values never fires on either.\<close>

definition clamp :: "'a::linorder \<Rightarrow> 'a \<Rightarrow> 'a \<Rightarrow> 'a" where
  "clamp v lo hi = min hi (max lo v)"

text \<open>\<^verbatim>\<open>Math.round\<close>: to the nearest integer, a tie to the larger one.\<close>

definition jsRound :: "rat \<Rightarrow> int" where
  "jsRound x = \<lfloor>x + 1 / 2\<rfloor>"

definition toNormalizedString :: "json option \<Rightarrow> string \<Rightarrow> string" where
  "toNormalizedString v fallback =
     (case v of
        Some (JStr s) \<Rightarrow> (let t = trim s in if length t > 0 then t else fallback)
      | _ \<Rightarrow> fallback)"

text \<open>\<^verbatim>\<open>toStringArray\<close> (always called without its second argument): the trimmed
  non-empty strings of an array, first occurrences in order.\<close>

fun trimmedIfNonEmptyString :: "json \<Rightarrow> string list" where
  "trimmedIfNonEmptyString (JStr s) = (if length (trim s) > 0 then [trim s] else [])"
| "trimmedIfNonEmptyString _ = []"

definition toStringArray :: "json option \<Rightarrow> string list" where
  "toStringArray v =
     (case v of
        Some (JArr xs) \<Rightarrow> uniq (concat (map trimmedIfNonEmptyString xs))
      | _ \<Rightarrow> [])"

text \<open>\<^verbatim>\<open>toFiniteNumber\<close>. The first argument stands for the built-in \<^verbatim>\<open>Number(s)\<close> on
  strings: \<open>Some\<close> of the value when it is finite. Every theorem below holds for any such
  function.\<close>

definition toFiniteNumber :: "(string \<Rightarrow> rat option) \<Rightarrow> json option \<Rightarrow> rat option" where
  "toFiniteNumber N v =
     (case v of
        Some (JNum n) \<Rightarrow> Some n
      | Some (JStr s) \<Rightarrow> N s
      | _ \<Rightarrow> None)"

definition toRelevance :: "(string \<Rightarrow> rat option) \<Rightarrow> json option \<Rightarrow> rat option" where
  "toRelevance N v =
     (case toFiniteNumber N v of
        None \<Rightarrow> None
      | Some numeric \<Rightarrow>
          if numeric > 1 \<and> numeric \<le> 100 then Some (clamp (numeric / 100) 0 1)
          else Some (clamp numeric 0 1))"

datatype ReportEvidenceStrength = Weak | Medium | Strong

definition toStrength :: "json option \<Rightarrow> ReportEvidenceStrength option" where
  "toStrength v =
     (if v = Some (JStr ''weak'') then Some Weak
      else if v = Some (JStr ''medium'') then Some Medium
      else if v = Some (JStr ''strong'') then Some Strong
      else None)"

definition strengthFromRelevance :: "rat \<Rightarrow> ReportEvidenceStrength" where
  "strengthFromRelevance relevance =
     (if relevance \<ge> 0.75 then Strong
      else if relevance \<ge> 0.45 then Medium
      else Weak)"

definition relevanceFromStrength :: "ReportEvidenceStrength \<Rightarrow> rat" where
  "relevanceFromStrength strength =
     (if strength = Strong then 0.84
      else if strength = Medium then 0.62
      else 0.38)"

definition strengthToString :: "ReportEvidenceStrength \<Rightarrow> string" where
  "strengthToString s = (case s of Weak \<Rightarrow> ''weak'' | Medium \<Rightarrow> ''medium'' | Strong \<Rightarrow> ''strong'')"

section \<open>Data model\<close>

datatype OverallRecommendation = StrongHire | Hire | LeanHire | LeanNo | No

datatype ReportLevel = Intern | Newgrad | Mid | Senior

record ReportInputSegment =
  seg_id :: string
  seg_start :: rat
  seg_end :: rat
  seg_text :: string

record ReportDimension =
  dim_key :: string
  dim_label :: string
  dim_description :: string

record ReportRequestBody =
  questionId :: string
  questionText :: string
  req_segments :: "ReportInputSegment list"
  rubric_dimensions :: "ReportDimension list"

record ReportDimensionEvidence =
  ev_segmentId :: string
  ev_quote :: string
  ev_interpretation :: string
  ev_strength :: ReportEvidenceStrength
  ev_relevance :: rat

record ReportEvidenceCoverage =
  citedSegmentCount :: nat
  availableSegmentCount :: nat

record ReportAnchors =
  anchor1 :: string
  anchor2 :: string
  anchor3 :: string
  anchor4 :: string
  anchor5 :: string

record ReportAnchorAlignment =
  chosenLevel :: int
  whyMeets :: "string list"
  whyNotHigher :: "string list"

record ReportWhatWouldChangeScore =
  wcs_up :: "string list"
  wcs_down :: "string list"

record ReportDimensionAssessment =
  da_id :: string
  da_label :: string
  score :: "int option"
  notObserved :: bool
  confidence :: int
  anchors :: ReportAnchors
  missingSignals :: "string list"
  evidence :: "ReportDimensionEvidence list"
  evidenceCoverage :: ReportEvidenceCoverage
  observedSignals :: "string list"
  concerns :: "string list"
  counterSignals :: "string list"
  observations :: "string list"
  anchorAlignment :: ReportAnchorAlignment
  evidenceQuality :: rat
  consistency :: rat
  probes :: "string list"
  whatWouldChangeScore :: ReportWhatWouldChangeScore

record ReportLeveling =
  role :: string
  level :: ReportLevel

record ReportCoverageByDimensionEntry =
  segmentIds :: "string list"
  coveragePct :: rat

record ReportCoverageBySegmentEntry =
  cov_dimensions :: "string list"

text \<open>A \<^verbatim>\<open>Record<string, T>\<close> is an association list: assignment to a present key
  replaces the value in place, to a new key appends (\<open>AList.update\<close>), and a read
  is \<open>map_of\<close>. Keys are own properties: a key that names a member of
  \<^verbatim>\<open>Object.prototype\<close> (such as \<^verbatim>\<open>constructor\<close>) is outside the model, and the order in
  which JavaScript enumerates integer-like keys is not modelled.\<close>

record ReportCoverageMap =
  byDimension :: "(string \<times> ReportCoverageByDimensionEntry) list"
  bySegment :: "(string \<times> ReportCoverageBySegmentEntry) list"

record ModernReportResponseBody =
  overallSummary :: string
  overallRecommendation :: OverallRecommendation
  risks :: "string list"
  followUps :: "string list"
  dimensions :: "ReportDimensionAssessment list"
  decisionRationale :: "string list"
  leveling :: ReportLeveling
  calibrationNotes :: "string list"
  keyStrengths :: "string list"
  keyRisks :: "string list"
  mustFixToHire :: "string list"
  coverageMap :: ReportCoverageMap

record NormalizeOptions =
  opt_dimensions :: "ReportDimension list"
  opt_availableSegmentCount :: nat
  opt_segments :: "ReportInputSegment list option"

text \<open>\<^verbatim>\<open>NormalizeContext\<close>. Its \<^verbatim>\<open>segmentById\<close> map is always built from its
  \<^verbatim>\<open>segments\<close>, so it is the function \<open>segmentById\<close> below rather than a field.\<close>

record NormalizeContext =
  ctx_dimensions :: "ReportDimension list"
  ctx_availableSegmentCount :: nat
  ctx_segments :: "ReportInputSegment list"
  ctx_segmentIds :: "string list"
  enforceSegmentValidation :: bool

text \<open>\<^verbatim>\<open>new Map(segments.map(s => [s.id, s]))\<close>: a later segment with the same id replaces
  the earlier one.\<close>

definition segmentMap :: "ReportInputSegment list \<Rightarrow> string \<Rightarrow> ReportInputSegment option" where
  "segmentMap segs = map_of (rev (map (\<lambda>s. (seg_id s, s)) segs))"

definition segmentById :: "NormalizeContext \<Rightarrow> string \<Rightarrow> ReportInputSegment option" where
  "segmentById context = segmentMap (ctx_segments context)"

section \<open>Recommendation calibration\<close>

definition recommendationToString :: "OverallRecommendation \<Rightarrow> string" where
  "recommendationToString r =
     (case r of StrongHire \<Rightarrow> ''StrongHire'' | Hire \<Rightarrow> ''Hire'' | LeanHire \<Rightarrow> ''LeanHire''
      | LeanNo \<Rightarrow> ''LeanNo'' | No \<Rightarrow> ''No'')"

definition toOverallRecommendation :: "json option \<Rightarrow> OverallRecommendation option" where
  "toOverallRecommendation v =
     (if v = Some (JStr ''StrongHire'') then Some StrongHire
      else if v = Some (JStr ''Hire'') then Some Hire
      else if v = Some (JStr ''LeanHire'') then Some LeanHire
      else if v = Some (JStr ''LeanNo'') then Some LeanNo
      else if v = Some (JStr ''No'') then Some No
      else None)"

fun recommendationRank :: "OverallRecommendation \<Rightarrow> nat" where
  "recommendationRank No = 0"
| "recommendationRank LeanNo = 1"
| "recommendationRank LeanHire = 2"
| "recommendationRank Hire = 3"
| "recommendationRank StrongHire = 4"

definition capRecommendation :: "OverallRecommendation \<Rightarrow> OverallRecommendation \<Rightarrow> OverallRecommendation" where
  "capRecommendation v maxAllowed =
     (if recommendationRank v \<le> recommendationRank maxAllowed then v else maxAllowed)"

definition CORE_DIMENSION_KEYS :: "string set" where
  "CORE_DIMENSION_KEYS = {''clarity'', ''problemSolving'', ''ownership''}"

definition weightForDimension :: "string \<Rightarrow> rat" where
  "weightForDimension dimensionKey =
     (if dimensionKey = ''problemSolving'' then 0.35
      else if dimensionKey = ''ownership'' then 0.25
      else if dimensionKey = ''clarity'' then 0.2
      else 0.2)"

definition baseRecommendationFromWeightedScore :: "rat \<Rightarrow> OverallRecommendation" where
  "baseRecommendationFromWeightedScore weightedScore =
     (if weightedScore \<ge> 4.5 then StrongHire
      else if weightedScore \<ge> 3.8 then Hire
      else if weightedScore \<ge> 3.2 then LeanHire
      else if weightedScore \<ge> 2.5 then LeanNo
      else No)"

record Calibration =
  recommendation :: OverallRecommendation
  weightedScore :: rat
  coverageRatio :: rat
  cal_notes :: "string list"

text \<open>\<^verbatim>\<open>!dimension.notObserved && typeof dimension.score === "number"\<close>\<close>

definition isObserved :: "ReportDimensionAssessment \<Rightarrow> bool" where
  "isObserved d = (\<not> notObserved d \<and> score d \<noteq> None)"

text \<open>The accumulator \<^verbatim>\<open>{ weightedScore, weight }\<close> of the \<^verbatim>\<open>reduce\<close>.\<close>

definition weightedTotalsStep :: "rat \<times> rat \<Rightarrow> ReportDimensionAssessment \<Rightarrow> rat \<times> rat" where
  "weightedTotalsStep acc d =
     (let weight = weightForDimension (da_id d) in
      (fst acc + weight * of_int (case score d of Some s \<Rightarrow> s | None \<Rightarrow> 0), snd acc + weight))"

definition coverageRatioOf :: "ReportDimensionAssessment \<Rightarrow> rat" where
  "coverageRatioOf d =
     (if availableSegmentCount (evidenceCoverage d) > 0
      then of_nat (citedSegmentCount (evidenceCoverage d)) /
           of_nat (availableSegmentCount (evidenceCoverage d))
      else 0)"

definition hasCoreNotObserved :: "ReportDimensionAssessment list \<Rightarrow> bool" where
  "hasCoreNotObserved ds =
     list_ex (\<lambda>d. da_id d \<in> CORE_DIMENSION_KEYS \<and> (notObserved d \<or> score d = None)) ds"

definition lowScoreCount :: "ReportDimensionAssessment list \<Rightarrow> nat" where
  "lowScoreCount ds = length (filter (\<lambda>d. case score d of Some s \<Rightarrow> s \<le> 2 | None \<Rightarrow> False) ds)"

definition deriveCalibratedRecommendation :: "ReportDimensionAssessment list \<Rightarrow> Calibration" where
  "deriveCalibratedRecommendation ds =
     (let observedDimensions = filter isObserved ds in
      if length observedDimensions = 0 then
        \<lparr> recommendation = LeanNo, weightedScore = 0, coverageRatio = 0,
          cal_notes = [''No scored dimensions were observed; recommendation is capped to LeanNo.''] \<rparr>
      else
        let weightedTotals = foldl weightedTotalsStep (0, 0) observedDimensions;
            wScore = (if snd weightedTotals > 0 then fst weightedTotals / snd weightedTotals else 0);
            cRatio = (if length ds > 0
                      then foldl (+) 0 (map coverageRatioOf ds) / of_nat (length ds)
                      else 0);
            r0 = baseRecommendationFromWeightedScore wScore;
            notes0 = [''Weighted score '' @ toFixed wScore 2 @
                        '' derived from dimension importance (problem solving and ownership weighted highest).'',
                      ''Average evidence coverage ratio is '' @ toFixed (cRatio * 100) 0 @ ''%.''];
            r1 = (if hasCoreNotObserved ds then capRecommendation r0 LeanHire else r0);
            notes1 = (if hasCoreNotObserved ds
                      then notes0 @ [''At least one core dimension is not observed, so recommendation is capped at LeanHire.'']
                      else notes0);
            r2 = (if cRatio < 0.35 then capRecommendation r1 LeanHire else r1);
            notes2 = (if cRatio < 0.35
                      then notes1 @ [''Evidence coverage is below 35%, so recommendation is capped at LeanHire.'']
                      else notes1);
            r3 = (if lowScoreCount ds \<ge> 2 then capRecommendation r2 LeanNo else r2);
            notes3 = (if lowScoreCount ds \<ge> 2
                      then notes2 @ [''Multiple dimensions scored at or below 2, so recommendation is capped at LeanNo.'']
                      else notes2)
        in \<lparr> recommendation = r3, weightedScore = wScore, coverageRatio = cRatio, cal_notes = notes3 \<rparr>)"

definition levelToString :: "ReportLevel \<Rightarrow> string" where
  "levelToString l =
     (case l of Intern \<Rightarrow> ''intern'' | Newgrad \<Rightarrow> ''newgrad'' | Mid \<Rightarrow> ''mid'' | Senior \<Rightarrow> ''senior'')"

definition deriveLeveling :: "rat \<Rightarrow> ReportLeveling" where
  "deriveLeveling wScore =
     \<lparr> role = ''Software Engineer'',
       level = (if wScore \<ge> 4.2 then Senior
                else if wScore \<ge> 3.3 then Mid
                else if wScore \<ge> 2.6 then Newgrad
                else Intern) \<rparr>"

definition toReportLevel :: "json option \<Rightarrow> ReportLevel option" where
  "toReportLevel v =
     (if v = Some (JStr ''intern'') then Some Intern
      else if v = Some (JStr ''newgrad'') then Some Newgrad
      else if v = Some (JStr ''mid'') then Some Mid
      else if v = Some (JStr ''senior'') then Some Senior
      else None)"

definition normalizeLeveling :: "json option \<Rightarrow> ReportLeveling \<Rightarrow> ReportLeveling" where
  "normalizeLeveling v fallback =
     (if \<not> isRecord v then fallback
      else \<lparr> role = toNormalizedString (field v ''role'') (role fallback),
             level = (case toReportLevel (field v ''level'') of Some l \<Rightarrow> l | None \<Rightarrow> level fallback) \<rparr>)"

text \<open>\<^verbatim>\<open>ensureMinItems\<close>: the loop over the fallback entries, then the truncation.\<close>

fun fillFrom :: "string list \<Rightarrow> string list \<Rightarrow> nat \<Rightarrow> string list" where
  "fillFrom result [] minItems = result"
| "fillFrom result (fallbackEntry # rest) minItems =
     (if length result \<ge> minItems then result
      else if fallbackEntry \<notin> set result then fillFrom (result @ [fallbackEntry]) rest minItems
      else fillFrom result rest minItems)"

definition ensureMinItems :: "string list \<Rightarrow> string list \<Rightarrow> nat \<Rightarrow> nat \<Rightarrow> string list" where
  "ensureMinItems entries fallbackEntries minItems maxItems =
     take maxItems (fillFrom entries fallbackEntries minItems)"

section \<open>Normalization context\<close>

definition MAX_SAFE_INTEGER :: rat where
  "MAX_SAFE_INTEGER = 9007199254740991"

text \<open>\<^verbatim>\<open>normalizedContextFromRequest\<close>. The request passed \<^verbatim>\<open>isReportRequestBody\<close>, so
  \<^verbatim>\<open>segment.start\<close> and \<^verbatim>\<open>segment.end\<close> are finite numbers and \<^verbatim>\<open>toFiniteNumber\<close>
  returns them unchanged.\<close>

definition normalizedContextFromRequest :: "ReportRequestBody \<Rightarrow> NormalizeContext" where
  "normalizedContextFromRequest requestBody =
     (let segments = map (\<lambda>segment.
            let start = clamp (seg_start segment) 0 MAX_SAFE_INTEGER;
                endRaw = seg_end segment;
                end' = max start (clamp endRaw start MAX_SAFE_INTEGER)
            in \<lparr> seg_id = seg_id segment, seg_start = start, seg_end = end',
                 seg_text = seg_text segment \<rparr>) (req_segments requestBody)
      in \<lparr> ctx_dimensions = rubric_dimensions requestBody,
           ctx_availableSegmentCount = length segments,
           ctx_segments = segments,
           ctx_segmentIds = map seg_id segments,
           enforceSegmentValidation = True \<rparr>)"

definition normalizeOptions :: "NormalizeOptions \<Rightarrow> NormalizeContext" where
  "normalizeOptions options =
     (let segments =
            (case opt_segments options of
               Some segs \<Rightarrow> map (\<lambda>segment.
                  \<lparr> seg_id = seg_id segment,
                    seg_start = clamp (seg_start segment) 0 MAX_SAFE_INTEGER,
                    seg_end = max (clamp (seg_start segment) 0 MAX_SAFE_INTEGER)
                                  (clamp (seg_end segment) 0 MAX_SAFE_INTEGER),
                    seg_text = seg_text segment \<rparr>) segs
             | None \<Rightarrow> [])
      in \<lparr> ctx_dimensions = opt_dimensions options,
           ctx_availableSegmentCount = max 1 (opt_availableSegmentCount options),
           ctx_segments = segments,
           ctx_segmentIds = map seg_id segments,
           enforceSegmentValidation = (length segments > 0) \<rparr>)"

section \<open>Evidence\<close>

text \<open>The loop of \<^verbatim>\<open>pickFallbackEvidenceSegments\<close> over the offsets \<open>0 ..< n\<close>; it stops as
  soon as \<open>targetCount\<close> segments are picked.\<close>

fun pickLoop ::
  "ReportInputSegment list \<Rightarrow> nat \<Rightarrow> nat \<Rightarrow> nat list \<Rightarrow> ReportInputSegment list \<Rightarrow> string list
     \<Rightarrow> ReportInputSegment list" where
  "pickLoop segs dimensionIndex targetCount [] picked seen = picked"
| "pickLoop segs dimensionIndex targetCount (offset # offsets) picked seen =
     (if length picked < targetCount then
        (let segment = segs ! ((dimensionIndex + offset) mod length segs) in
         if seg_id segment \<in> set seen
         then pickLoop segs dimensionIndex targetCount offsets picked seen
         else pickLoop segs dimensionIndex targetCount offsets
                (picked @ [segment]) (seen @ [seg_id segment]))
      else picked)"

definition pickFallbackEvidenceSegments ::
  "NormalizeContext \<Rightarrow> nat \<Rightarrow> nat \<Rightarrow> ReportInputSegment list" where
  "pickFallbackEvidenceSegments context dimensionIndex desiredCount =
     (if length (ctx_segments context) = 0 \<or> desiredCount \<le> 0 then []
      else pickLoop (ctx_segments context) dimensionIndex
             (min desiredCount (length (ctx_segments context)))
             [0 ..< length (ctx_segments context)] [] [])"

text \<open>The entry \<^verbatim>\<open>normalizeEvidence\<close> pushes for a candidate that passed its checks.\<close>

definition evidenceOfEntry ::
  "(string \<Rightarrow> rat option) \<Rightarrow> NormalizeContext \<Rightarrow> bool \<Rightarrow> string \<Rightarrow> json \<Rightarrow> string
     \<Rightarrow> ReportDimensionEvidence" where
  "evidenceOfEntry N context notObs dimensionLabel entry rawSegmentId =
     (let knownSegment = segmentById context rawSegmentId;
          rawStrength = toStrength (getField entry ''strength'');
          relevance =
            (case toRelevance N (getField entry ''relevance'') of
               Some r \<Rightarrow> r
             | None \<Rightarrow>
                (case toRelevance N (getField entry ''confidence'') of
                   Some r \<Rightarrow> r
                 | None \<Rightarrow>
                    (case rawStrength of
                       Some s \<Rightarrow> relevanceFromStrength s
                     | None \<Rightarrow> (if notObs then 0.45 else 0.7))));
          strength = (case rawStrength of Some s \<Rightarrow> s | None \<Rightarrow> strengthFromRelevance relevance);
          fallbackQuote =
            toMaxWords (case knownSegment of Some s \<Rightarrow> seg_text s
                        | None \<Rightarrow> ''Evidence excerpt unavailable.'') 25;
          quote = toMaxWords (toNormalizedString (getField entry ''quote'') fallbackQuote) 25;
          interpretation = toNormalizedString (getField entry ''interpretation'')
             (dimensionLabel @ '' signal from candidate action and stated outcome in this segment.'')
      in \<lparr> ev_segmentId = rawSegmentId, ev_quote = quote, ev_interpretation = interpretation,
           ev_strength = strength, ev_relevance = relevance \<rparr>)"

text \<open>The first loop of \<^verbatim>\<open>normalizeEvidence\<close>, over the candidate entries; the state is
  \<^verbatim>\<open>result\<close> and \<^verbatim>\<open>seenSegmentIds\<close>.\<close>

fun candidateLoop ::
  "(string \<Rightarrow> rat option) \<Rightarrow> NormalizeContext \<Rightarrow> bool \<Rightarrow> string \<Rightarrow> json list
     \<Rightarrow> ReportDimensionEvidence list \<times> string list
     \<Rightarrow> ReportDimensionEvidence list \<times> string list" where
  "candidateLoop N context notObs dimensionLabel [] st = st"
| "candidateLoop N context notObs dimensionLabel (entry # rest) st =
     (if \<not> isRecord (Some entry) then candidateLoop N context notObs dimensionLabel rest st
      else
        (let rawSegmentId = toNormalizedString (getField entry ''segmentId'') [] in
         if length rawSegmentId = 0 \<or> rawSegmentId \<in> set (snd st)
         then candidateLoop N context notObs dimensionLabel rest st
         else if enforceSegmentValidation context \<and> segmentById context rawSegmentId = None
         then candidateLoop N context notObs dimensionLabel rest st
         else candidateLoop N context notObs dimensionLabel rest
                (fst st @ [evidenceOfEntry N context notObs dimensionLabel entry rawSegmentId],
                 snd st @ [rawSegmentId])))"

text \<open>The second loop, over the fallback segments.\<close>

fun backfillLoop ::
  "string \<Rightarrow> ReportInputSegment list \<Rightarrow> ReportDimensionEvidence list \<times> string list
     \<Rightarrow> ReportDimensionEvidence list \<times> string list" where
  "backfillLoop dimensionLabel [] st = st"
| "backfillLoop dimensionLabel (segment # rest) st =
     (if seg_id segment \<in> set (snd st) then backfillLoop dimensionLabel rest st
      else backfillLoop dimensionLabel rest
             (fst st @ [\<lparr> ev_segmentId = seg_id segment,
                          ev_quote = toMaxWords (seg_text segment) 25,
                          ev_interpretation = dimensionLabel @ '' signal grounded in this quoted segment.'',
                          ev_strength = Medium,
                          ev_relevance = 0.64 \<rparr>],
              snd st @ [seg_id segment]))"

definition normalizeEvidence ::
  "(string \<Rightarrow> rat option) \<Rightarrow> json option \<Rightarrow> NormalizeContext \<Rightarrow> nat \<Rightarrow> bool \<Rightarrow> string
     \<Rightarrow> ReportDimensionEvidence list" where
  "normalizeEvidence N rawValue context dimensionIndex notObs dimensionLabel =
     (let st1 = (if isArray rawValue
                 then candidateLoop N context notObs dimensionLabel (elems rawValue) ([], [])
                 else ([], []));
          desiredMinimum = (if notObs then 0 else min 2 (length (ctx_segments context)));
          st2 = (if length (fst st1) < desiredMinimum
                 then backfillLoop dimensionLabel
                        (pickFallbackEvidenceSegments context dimensionIndex
                           (desiredMinimum - length (fst st1))) st1
                 else st1)
      in take 4 (fst st2))"

section \<open>Dimension normalizer\<close>

definition createDefaultAnchors :: "string \<Rightarrow> string \<Rightarrow> ReportAnchors" where
  "createDefaultAnchors lbl descr =
     (let base = (if length (trim lbl) > 0 then trim lbl else ''the dimension'');
          detail = (if length (trim descr) > 0 then trim descr else ''the competency'')
      in \<lparr> anchor1 = ''Signals are largely absent for '' @ base @
                       ''; examples stay vague and do not establish '' @ detail @ ''.'',
           anchor2 = ''Some signals appear for '' @ base @
                       '', but evidence is inconsistent and outcomes are weakly supported.'',
           anchor3 = ''Adequate '' @ base @
                       '' with at least one concrete example; reasoning is understandable but uneven in depth.'',
           anchor4 = ''Strong '' @ base @
                       '' with clear reasoning, concrete tradeoffs, and credible outcomes tied to specific actions.'',
           anchor5 = ''Exceptional '' @ base @
                       '': consistently precise, high-impact examples with rigorous reasoning and measurable results.'' \<rparr>)"

definition normalizeAnchors :: "json option \<Rightarrow> string \<Rightarrow> string \<Rightarrow> ReportAnchors" where
  "normalizeAnchors v fallbackLabel fallbackDescription =
     (let defaults = createDefaultAnchors fallbackLabel fallbackDescription in
      if \<not> isRecord v then defaults
      else \<lparr> anchor1 = toNormalizedString (field v ''1'') (anchor1 defaults),
             anchor2 = toNormalizedString (field v ''2'') (anchor2 defaults),
             anchor3 = toNormalizedString (field v ''3'') (anchor3 defaults),
             anchor4 = toNormalizedString (field v ''4'') (anchor4 defaults),
             anchor5 = toNormalizedString (field v ''5'') (anchor5 defaults) \<rparr>)"

definition normalizeAnchorAlignment ::
  "(string \<Rightarrow> rat option) \<Rightarrow> json option \<Rightarrow> int option \<Rightarrow> string list \<Rightarrow> ReportAnchorAlignment" where
  "normalizeAnchorAlignment N rawValue sc missing =
     (let fallbackChosenLevel = (case sc of Some s \<Rightarrow> s | None \<Rightarrow> 3);
          fallbackWhyMeets =
            (if sc = None
             then [''Insufficient observable signal to map to a reliable anchor level.'']
             else [''Observed behaviors align with the selected rubric level.'']);
          fallbackWhyNotHigher =
            (if length missing > 0 then take 2 missing
             else [''Additional concrete evidence would be required for a higher level.''])
      in if \<not> isRecord rawValue then
           \<lparr> chosenLevel = fallbackChosenLevel, whyMeets = fallbackWhyMeets,
             whyNotHigher = fallbackWhyNotHigher \<rparr>
         else
           \<lparr> chosenLevel =
               clamp (jsRound (case toFiniteNumber N (field rawValue ''chosenLevel'') of
                                 Some x \<Rightarrow> x | None \<Rightarrow> of_int fallbackChosenLevel)) 1 5,
             whyMeets = ensureMinItems (toStringArray (field rawValue ''whyMeets''))
                          fallbackWhyMeets 1 3,
             whyNotHigher = ensureMinItems (toStringArray (field rawValue ''whyNotHigher''))
                              fallbackWhyNotHigher 1 3 \<rparr>)"

definition normalizeWhatWouldChangeScore ::
  "json option \<Rightarrow> string list \<Rightarrow> ReportWhatWouldChangeScore" where
  "normalizeWhatWouldChangeScore rawValue missing =
     (let fallbackUp =
            (if length missing > 0 then take 2 missing
             else [''Provide a concrete example with measurable outcome and explicit tradeoffs.'']);
          fallbackDown = [''Vague statements without evidence would lower confidence in this score.'']
      in if \<not> isRecord rawValue then
           \<lparr> wcs_up = ensureMinItems [] fallbackUp 1 3,
             wcs_down = ensureMinItems [] fallbackDown 1 3 \<rparr>
         else
           \<lparr> wcs_up = ensureMinItems (toStringArray (field rawValue ''up'')) fallbackUp 1 3,
             wcs_down = ensureMinItems (toStringArray (field rawValue ''down'')) fallbackDown 1 3 \<rparr>)"

definition normalizeConfidence ::
  "(string \<Rightarrow> rat option) \<Rightarrow> json option \<Rightarrow> rat \<Rightarrow> rat \<Rightarrow> rat \<Rightarrow> int" where
  "normalizeConfidence N rawConfidence evQuality consist evidenceCoverageRatio =
     (case toFiniteNumber N rawConfidence of
        Some explicitConfidence \<Rightarrow> jsRound (clamp explicitConfidence 0 100)
      | None \<Rightarrow>
          jsRound (clamp ((evQuality * 0.45 + consist * 0.35 + evidenceCoverageRatio * 0.2) * 100)
                     0 100))"

definition normalizeDimension ::
  "(string \<Rightarrow> rat option) \<Rightarrow> json option \<Rightarrow> ReportDimension \<Rightarrow> nat \<Rightarrow> NormalizeContext
     \<Rightarrow> ReportDimensionAssessment" where
  "normalizeDimension N rawDimension descriptor dimensionIndex context =
     (let rawRecord = recordOrEmpty rawDimension;
          notObs = (case getField rawRecord ''notObserved'' of Some (JBool b) \<Rightarrow> b | _ \<Rightarrow> False);
          rawScore = toFiniteNumber N (getField rawRecord ''score'');
          sc = (case rawScore of
                  None \<Rightarrow> None
                | Some r \<Rightarrow> if notObs then None else Some (clamp (jsRound r) 1 5));
          anch = normalizeAnchors (getField rawRecord ''anchors'')
                   (dim_label descriptor) (dim_description descriptor);
          missingSignalsFallback =
            (if notObs
             then [''Add direct evidence for '' @ dim_label descriptor @
                     '' via concrete actions and outcomes.'']
             else [''Show stronger '' @ dim_label descriptor @
                     '' evidence tied to measurable outcomes.'']);
          missing = ensureMinItems (toStringArray (getField rawRecord ''missingSignals''))
                      missingSignalsFallback 1 4;
          evid = normalizeEvidence N (getField rawRecord ''evidence'') context dimensionIndex
                   notObs (dim_label descriptor);
          cited = length (uniq (map ev_segmentId evid));
          evidenceCoverageRatio =
            (if ctx_availableSegmentCount context > 0
             then of_nat cited / of_nat (ctx_availableSegmentCount context)
             else 0);
          evQuality = clamp
            (case toRelevance N (getField rawRecord ''evidenceQuality'') of
               Some q \<Rightarrow> q
             | None \<Rightarrow>
                 if length evid > 0
                 then foldl (\<lambda>sum entry. sum + ev_relevance entry) 0 evid / of_nat (length evid)
                 else if notObs then 0.25 else 0.5) 0 1;
          consist = clamp
            (case toRelevance N (getField rawRecord ''consistency'') of
               Some c \<Rightarrow> c
             | None \<Rightarrow> if notObs then 0.35 else 0.62 + min (evidenceCoverageRatio * 0.2) 0.18) 0 1;
          conf = normalizeConfidence N (getField rawRecord ''confidence'') evQuality consist
                   evidenceCoverageRatio;
          observationsFallback =
            (if notObs
             then [''No concrete behavior in the transcript maps directly to '' @
                     dim_label descriptor @ ''.'',
                   ''Further probing is required before assigning a reliable score.'']
             else [''Observed signals suggest '' @ dim_label descriptor @
                     '' at approximately level '' @
                     intToString (case sc of Some s \<Rightarrow> s | None \<Rightarrow> 3) @ ''.'',
                   ''Evidence contains specific statements but could include more quantification.'']);
          obsv = ensureMinItems (toStringArray (getField rawRecord ''observations''))
                   observationsFallback 2 4;
          obsSignals = ensureMinItems (toStringArray (getField rawRecord ''observedSignals''))
                         obsv 2 4;
          concernsFallback =
            (if notObs then [''Cannot validate '' @ dim_label descriptor @ '' from current response.'']
             else take 2 missing);
          conc = ensureMinItems (toStringArray (getField rawRecord ''concerns'')) concernsFallback 1 3;
          counter = take 3 (toStringArray (getField rawRecord ''counterSignals''));
          alignment = normalizeAnchorAlignment N (getField rawRecord ''anchorAlignment'') sc missing;
          probesFallback =
            (if notObs
             then [''Describe a situation that demonstrates '' @ dim_label descriptor @
                     '' with concrete steps.'',
                   ''What outcome changed because of your direct actions?'']
             else [''Which tradeoff did you reject and why?'',
                   ''What metric changed after your intervention?'']);
          prb = ensureMinItems (toStringArray (getField rawRecord ''probes'')) probesFallback 2 3;
          wcs = normalizeWhatWouldChangeScore (getField rawRecord ''whatWouldChangeScore'') missing
      in \<lparr> da_id = dim_key descriptor,
           da_label = dim_label descriptor,
           score = sc,
           notObserved = notObs,
           confidence = conf,
           anchors = anch,
           missingSignals = missing,
           evidence = evid,
           evidenceCoverage = \<lparr> citedSegmentCount = cited,
                                availableSegmentCount = ctx_availableSegmentCount context \<rparr>,
           observedSignals = obsSignals,
           concerns = conc,
           counterSignals = counter,
           observations = obsv,
           anchorAlignment = alignment,
           evidenceQuality = evQuality,
           consistency = consist,
           probes = prb,
           whatWouldChangeScore = wcs \<rparr>)"

section \<open>Interval merge\<close>

definition COVERAGE_EPSILON_SECONDS :: rat where
  "COVERAGE_EPSILON_SECONDS = 0.05"

record Interval =
  iv_start :: rat
  iv_end :: rat

text \<open>One iteration of the sweep of \<^verbatim>\<open>mergeIntervals\<close> in \<^verbatim>\<open>report.ts\<close>: \<open>merged\<close> is the
  array built so far, its last element is extended in place or a copy of the interval is
  pushed.\<close>

definition mergeStep :: "rat \<Rightarrow> Interval list \<Rightarrow> Interval \<Rightarrow> Interval list" where
  "mergeStep epsilonSeconds merged interval =
     (if merged = [] then [interval]
      else
        (let lst = last merged in
         if iv_start interval \<le> iv_end lst + epsilonSeconds
         then butlast merged @ [lst\<lparr> iv_end := max (iv_end lst) (iv_end interval) \<rparr>]
         else merged @ [interval]))"

text \<open>\<^verbatim>\<open>[...intervals].sort((a, b) => a.start - b.start)\<close> is a stable sort by start.\<close>

definition mergeIntervals :: "Interval list \<Rightarrow> rat \<Rightarrow> Interval list" where
  "mergeIntervals intervals epsilonSeconds =
     (if length intervals = 0 then []
      else foldl (mergeStep epsilonSeconds) [] (sort_key iv_start intervals))"

text \<open>The copy in \<^verbatim>\<open>coverage.ts\<close>, whose intervals carry the ids of the segments they
  cover.\<close>

record CoverageInterval =
  ci_start :: rat
  ci_end :: rat
  ci_segmentIds :: "string list"

definition coverage_mergeStep ::
  "rat \<Rightarrow> CoverageInterval list \<Rightarrow> CoverageInterval \<Rightarrow> CoverageInterval list" where
  "coverage_mergeStep epsilonSeconds merged interval =
     (if merged = [] then
        [\<lparr> ci_start = ci_start interval, ci_end = ci_end interval,
            ci_segmentIds = ci_segmentIds interval \<rparr>]
      else
        (let previous = last merged in
         if ci_start interval \<le> ci_end previous + epsilonSeconds
         then butlast merged @
                [previous\<lparr> ci_end := max (ci_end previous) (ci_end interval),
                           ci_segmentIds := uniq (ci_segmentIds previous @ ci_segmentIds interval) \<rparr>]
         else merged @
                [\<lparr> ci_start = ci_start interval, ci_end = ci_end interval,
                    ci_segmentIds = ci_segmentIds interval \<rparr>]))"

definition coverage_mergeIntervals :: "CoverageInterval list \<Rightarrow> rat \<Rightarrow> CoverageInterval list" where
  "coverage_mergeIntervals intervals epsilonSeconds =
     (if length intervals = 0 then []
      else foldl (coverage_mergeStep epsilonSeconds) [] (sort_key ci_start intervals))"

section \<open>Duration basis\<close>

text \<open>\<^verbatim>\<open>deriveDurationSeconds\<close> of \<^verbatim>\<open>report.ts\<close>, on the segments of a context.\<close>

definition deriveDurationSeconds :: "ReportInputSegment list \<Rightarrow> rat" where
  "deriveDurationSeconds segments =
     (let maxEnd = foldl (\<lambda>maxValue segment. max maxValue (seg_end segment)) 0 segments in
      if maxEnd > 0 then maxEnd else 1)"

text \<open>\<^verbatim>\<open>deriveDurationSeconds\<close> of \<^verbatim>\<open>coverage.ts\<close>. Its inputs come from the page and are
  tested with \<^verbatim>\<open>Number.isFinite\<close>, so a number is \<open>Fin\<close> of a rational or \<open>NotFinite\<close>;
  an absent \<^verbatim>\<open>preferredDurationSeconds\<close> is \<open>None\<close>.\<close>

datatype number = Fin rat | NotFinite

record CoverageSegment =
  cs_id :: string
  cs_start :: number
  cs_end :: number

definition coverage_deriveDurationSeconds :: "CoverageSegment list \<Rightarrow> number option \<Rightarrow> rat" where
  "coverage_deriveDurationSeconds segments preferredDurationSeconds =
     (let maxSegmentEnd =
            foldl (\<lambda>maxValue segment.
                     max maxValue (case cs_end segment of Fin e \<Rightarrow> e | NotFinite \<Rightarrow> 0)) 0 segments
      in case preferredDurationSeconds of
           Some (Fin p) \<Rightarrow>
             if p > 0 then p
             else if maxSegmentEnd > 0 then maxSegmentEnd else 1
         | _ \<Rightarrow> if maxSegmentEnd > 0 then maxSegmentEnd else 1)"

section \<open>Coverage map\<close>

text \<open>The inner loop of both builders: enter the dimension under each of its segment
  ids.\<close>

definition bySegmentStep ::
  "string \<Rightarrow> (string \<times> ReportCoverageBySegmentEntry) list \<Rightarrow> string
     \<Rightarrow> (string \<times> ReportCoverageBySegmentEntry) list" where
  "bySegmentStep dimensionId bySeg segmentId =
     (case map_of bySeg segmentId of
        Some existing \<Rightarrow>
          if dimensionId \<in> set (cov_dimensions existing) then bySeg
          else AList.update segmentId
                 \<lparr> cov_dimensions = cov_dimensions existing @ [dimensionId] \<rparr> bySeg
      | None \<Rightarrow> AList.update segmentId \<lparr> cov_dimensions = [dimensionId] \<rparr> bySeg)"

definition timedSegmentIds ::
  "ReportInputSegment list \<Rightarrow> ReportDimensionAssessment \<Rightarrow> string list" where
  "timedSegmentIds segments dimension =
     uniq (filter (\<lambda>segmentId. segmentMap segments segmentId \<noteq> None)
             (map ev_segmentId (evidence dimension)))"

definition timedCoveragePct ::
  "ReportInputSegment list \<Rightarrow> rat \<Rightarrow> string list \<Rightarrow> rat" where
  "timedCoveragePct segments durationSeconds sids =
     (let intervals =
            map (\<lambda>segment.
                   \<lparr> iv_start = clamp (seg_start segment) 0 durationSeconds,
                     iv_end = clamp (max (seg_end segment) (seg_start segment)) 0 durationSeconds \<rparr>)
                (List.map_filter (segmentMap segments) sids);
          mergedIntervals = mergeIntervals intervals COVERAGE_EPSILON_SECONDS;
          coveredSeconds =
            foldl (\<lambda>sum interval. sum + max (iv_end interval - iv_start interval) 0) 0 mergedIntervals;
          coveragePct = clamp ((coveredSeconds / durationSeconds) * 100) 0 100
      in of_int (jsRound (coveragePct * 10)) / 10)"

definition coverageMapStep ::
  "ReportInputSegment list \<Rightarrow> rat \<Rightarrow> ReportCoverageMap \<Rightarrow> ReportDimensionAssessment
     \<Rightarrow> ReportCoverageMap" where
  "coverageMapStep segments durationSeconds cm dimension =
     (let sids = timedSegmentIds segments dimension in
      \<lparr> byDimension = AList.update (da_id dimension)
            \<lparr> segmentIds = sids,
              coveragePct = timedCoveragePct segments durationSeconds sids \<rparr> (byDimension cm),
        bySegment = foldl (bySegmentStep (da_id dimension)) (bySegment cm) sids \<rparr>)"

definition createCoverageMap ::
  "ReportDimensionAssessment list \<Rightarrow> ReportInputSegment list \<Rightarrow> ReportCoverageMap" where
  "createCoverageMap dims segments =
     foldl (coverageMapStep segments (deriveDurationSeconds segments))
       \<lparr> byDimension = [], bySegment = [] \<rparr> dims"

definition coverageMapFromEvidenceStep ::
  "nat \<Rightarrow> ReportCoverageMap \<Rightarrow> ReportDimensionAssessment \<Rightarrow> ReportCoverageMap" where
  "coverageMapFromEvidenceStep safeAvailableCount cm dimension =
     (let sids = uniq (map ev_segmentId (evidence dimension));
          coveragePct = clamp ((of_nat (length sids) / of_nat safeAvailableCount) * 100) 0 100
      in \<lparr> byDimension = AList.update (da_id dimension)
              \<lparr> segmentIds = sids, coveragePct = of_int (jsRound (coveragePct * 10)) / 10 \<rparr>
              (byDimension cm),
           bySegment = foldl (bySegmentStep (da_id dimension)) (bySegment cm) sids \<rparr>)"

definition createCoverageMapFromEvidence ::
  "ReportDimensionAssessment list \<Rightarrow> nat \<Rightarrow> ReportCoverageMap" where
  "createCoverageMapFromEvidence dims availableCount =
     foldl (coverageMapFromEvidenceStep (max 1 availableCount))
       \<lparr> byDimension = [], bySegment = [] \<rparr> dims"

section \<open>Scorecard normalizer\<close>

record TopLevelArrays =
  tl_decisionRationale :: "string list"
  tl_keyStrengths :: "string list"
  tl_keyRisks :: "string list"
  tl_mustFixToHire :: "string list"
  tl_risks :: "string list"
  tl_followUps :: "string list"

definition buildTopLevelArrays ::
  "json \<Rightarrow> ReportDimensionAssessment list \<Rightarrow> OverallRecommendation \<Rightarrow> TopLevelArrays" where
  "buildTopLevelArrays report dims rec =
     (let highDimensions =
            take 3 (filter (\<lambda>d. \<not> notObserved d \<and> (case score d of Some s \<Rightarrow> s \<ge> 4 | None \<Rightarrow> False)) dims);
          lowDimensions =
            take 3 (filter (\<lambda>d. notObserved d \<or> (case score d of Some s \<Rightarrow> s \<le> 2 | None \<Rightarrow> False)) dims);
          fallbackDecisionRationale =
            [''Recommendation is '' @ recommendationToString rec @ '' based on observed rubric evidence.'',
             ''Scores emphasize anchor alignment, evidence quality, and cross-segment consistency.'',
             ''Confidence reflects both breadth of evidence and specificity of cited statements.''];
          fallbackStrengths =
            map (\<lambda>d. da_label d @ '': aligned with higher rubric anchors.'') highDimensions @
            [''Candidate communicates decision context and outcomes with interviewer-friendly structure.'',
             ''Evidence includes at least one concrete, role-owned action sequence.'',
             ''Response shows some consistency across cited segments.''];
          fallbackRisks =
            map (\<lambda>d. if notObserved d
                      then da_label d @ '': not observed; targeted probing required.''
                      else da_label d @ '': current evidence does not yet support stronger anchor levels.'')
                lowDimensions @
            [''Evidence coverage may be insufficient for high-confidence leveling.'',
             ''Some claims are directional and would benefit from stronger quantification.''];
          fallbackFollowUps = take 4 (concat (map probes dims));
          decisionRationale' = ensureMinItems (toStringArray (getField report ''decisionRationale''))
                                 fallbackDecisionRationale 3 5;
          keyStrengths' = ensureMinItems (toStringArray (getField report ''keyStrengths''))
                            fallbackStrengths 3 5;
          keyRisks' = ensureMinItems (toStringArray (getField report ''keyRisks'')) fallbackRisks 2 4;
          followUps' = ensureMinItems (toStringArray (getField report ''followUps''))
                         fallbackFollowUps 1 6;
          risks' = ensureMinItems (toStringArray (getField report ''risks'')) keyRisks' 1 6;
          fallbackMustFix =
            (if rec = StrongHire \<or> rec = Hire then []
             else [''Provide at least one concrete example with measurable outcome for the weakest dimension.'',
                   ''Clarify decision tradeoffs and ownership boundaries in follow-up questions.'']);
          mustFixToHire' = ensureMinItems (toStringArray (getField report ''mustFixToHire''))
                             fallbackMustFix (if length fallbackMustFix > 0 then 1 else 0) 4
      in \<lparr> tl_decisionRationale = decisionRationale', tl_keyStrengths = keyStrengths',
           tl_keyRisks = keyRisks', tl_mustFixToHire = mustFixToHire', tl_risks = risks',
           tl_followUps = followUps' \<rparr>)"

text \<open>The loop that fills \<^verbatim>\<open>sourceById\<close>: the first candidate record under each non-empty
  normalized id.\<close>

fun sourceByIdLoop :: "json list \<Rightarrow> (string \<times> json) list \<Rightarrow> (string \<times> json) list" where
  "sourceByIdLoop [] acc = acc"
| "sourceByIdLoop (candidate # rest) acc =
     (if \<not> isRecord (Some candidate) then sourceByIdLoop rest acc
      else
        (let cid = toNormalizedString (getField candidate ''id'') [] in
         if length cid > 0 \<and> map_of acc cid = None
         then sourceByIdLoop rest (acc @ [(cid, candidate)])
         else sourceByIdLoop rest acc))"

definition normalizeDimensions ::
  "(string \<Rightarrow> rat option) \<Rightarrow> json \<Rightarrow> NormalizeContext \<Rightarrow> ReportDimensionAssessment list" where
  "normalizeDimensions N sourceReport context =
     (let sourceDimensions =
            (if isArray (getField sourceReport ''dimensions'')
             then elems (getField sourceReport ''dimensions'') else []);
          sourceById = sourceByIdLoop sourceDimensions []
      in map (\<lambda>(index, descriptor).
                normalizeDimension N (map_of sourceById (dim_key descriptor)) descriptor index context)
             (enumerate 0 (ctx_dimensions context)))"

definition normalizeModernReport ::
  "(string \<Rightarrow> rat option) \<Rightarrow> json \<Rightarrow> NormalizeContext \<Rightarrow> ModernReportResponseBody" where
  "normalizeModernReport N sourceReport context =
     (let normalizedDimensions = normalizeDimensions N sourceReport context;
          calibration = deriveCalibratedRecommendation normalizedDimensions;
          rec = recommendation calibration;
          topLevel = buildTopLevelArrays sourceReport normalizedDimensions rec;
          fallbackLeveling = deriveLeveling (weightedScore calibration);
          lev = normalizeLeveling (getField sourceReport ''leveling'') fallbackLeveling;
          notes = ensureMinItems (toStringArray (getField sourceReport ''calibrationNotes''))
                    (cal_notes calibration) 2 6;
          summary = toNormalizedString (getField sourceReport ''overallSummary'')
                      ''Interview response reviewed with anchor-based scoring and evidence-linked notes.'';
          cm = (if length (ctx_segments context) > 0
                then createCoverageMap normalizedDimensions (ctx_segments context)
                else createCoverageMapFromEvidence normalizedDimensions
                       (ctx_availableSegmentCount context))
      in \<lparr> overallSummary = summary,
           overallRecommendation = rec,
           risks = tl_risks topLevel,
           followUps = tl_followUps topLevel,
           dimensions = normalizedDimensions,
           decisionRationale = tl_decisionRationale topLevel,
           leveling = lev,
           calibrationNotes = notes,
           keyStrengths = tl_keyStrengths topLevel,
           keyRisks = tl_keyRisks topLevel,
           mustFixToHire = tl_mustFixToHire topLevel,
           coverageMap = cm \<rparr>)"

section \<open>A typed Scorecard seen as an untyped record\<close>

text \<open>\<^verbatim>\<open>normalizeReportResponse\<close> and \<^verbatim>\<open>fromLegacyReport\<close> hand typed objects back to
  \<^verbatim>\<open>normalizeModernReport\<close>, which reads them property by property like any untrusted
  record. These functions give the properties of each typed object.\<close>

definition jsonOfStrings :: "string list \<Rightarrow> json" where
  "jsonOfStrings xs = JArr (map JStr xs)"

definition jsonOfEvidence :: "ReportDimensionEvidence \<Rightarrow> json" where
  "jsonOfEvidence e =
     JObj [(''segmentId'', JStr (ev_segmentId e)),
           (''quote'', JStr (ev_quote e)),
           (''interpretation'', JStr (ev_interpretation e)),
           (''strength'', JStr (strengthToString (ev_strength e))),
           (''relevance'', JNum (ev_relevance e))]"

definition jsonOfAnchors :: "ReportAnchors \<Rightarrow> json" where
  "jsonOfAnchors a =
     JObj [(''1'', JStr (anchor1 a)), (''2'', JStr (anchor2 a)), (''3'', JStr (anchor3 a)),
           (''4'', JStr (anchor4 a)), (''5'', JStr (anchor5 a))]"

definition jsonOfAssessment :: "ReportDimensionAssessment \<Rightarrow> json" where
  "jsonOfAssessment d =
     JObj [(''id'', JStr (da_id d)),
           (''label'', JStr (da_label d)),
           (''score'', (case score d of Some s \<Rightarrow> JNum (of_int s) | None \<Rightarrow> JNull)),
           (''notObserved'', JBool (notObserved d)),
           (''confidence'', JNum (of_int (confidence d))),
           (''anchors'', jsonOfAnchors (anchors d)),
           (''missingSignals'', jsonOfStrings (missingSignals d)),
           (''evidence'', JArr (map jsonOfEvidence (evidence d))),
           (''evidenceCoverage'',
              JObj [(''citedSegmentCount'', JNum (of_nat (citedSegmentCount (evidenceCoverage d)))),
                    (''availableSegmentCount'',
                       JNum (of_nat (availableSegmentCount (evidenceCoverage d))))]),
           (''observedSignals'', jsonOfStrings (observedSignals d)),
           (''concerns'', jsonOfStrings (concerns d)),
           (''counterSignals'', jsonOfStrings (counterSignals d)),
           (''observations'', jsonOfStrings (observations d)),
           (''anchorAlignment'',
              JObj [(''chosenLevel'', JNum (of_int (chosenLevel (anchorAlignment d)))),
                    (''whyMeets'', jsonOfStrings (whyMeets (anchorAlignment d))),
                    (''whyNotHigher'', jsonOfStrings (whyNotHigher (anchorAlignment d)))]),
           (''evidenceQuality'', JNum (evidenceQuality d)),
           (''consistency'', JNum (consistency d)),
           (''probes'', jsonOfStrings (probes d)),
           (''whatWouldChangeScore'',
              JObj [(''up'', jsonOfStrings (wcs_up (whatWouldChangeScore d))),
                    (''down'', jsonOfStrings (wcs_down (whatWouldChangeScore d)))])]"

definition jsonOfCoverageMap :: "ReportCoverageMap \<Rightarrow> json" where
  "jsonOfCoverageMap cm =
     JObj [(''byDimension'',
              JObj (map (\<lambda>(k, e). (k, JObj [(''segmentIds'', jsonOfStrings (segmentIds e)),
                                               (''coveragePct'', JNum (coveragePct e))]))
                        (byDimension cm))),
           (''bySegment'',
              JObj (map (\<lambda>(k, e). (k, JObj [(''dimensions'', jsonOfStrings (cov_dimensions e))]))
                        (bySegment cm)))]"

definition jsonOfReport :: "ModernReportResponseBody \<Rightarrow> json" where
  "jsonOfReport r =
     JObj [(''overallSummary'', JStr (overallSummary r)),
           (''overallRecommendation'', JStr (recommendationToString (overallRecommendation r))),
           (''leveling'', JObj [(''role'', JStr (role (leveling r))),
                                (''level'', JStr (levelToString (level (leveling r))))]),
           (''calibrationNotes'', jsonOfStrings (calibrationNotes r)),
           (''risks'', jsonOfStrings (risks r)),
           (''followUps'', jsonOfStrings (followUps r)),
           (''dimensions'', JArr (map jsonOfAssessment (dimensions r))),
           (''decisionRationale'', jsonOfStrings (decisionRationale r)),
           (''keyStrengths'', jsonOfStrings (keyStrengths r)),
           (''keyRisks'', jsonOfStrings (keyRisks r)),
           (''mustFixToHire'', jsonOfStrings (mustFixToHire r)),
           (''coverageMap'', jsonOfCoverageMap (coverageMap r))]"

section \<open>Legacy adapter\<close>

record ReportEvidence =
  le_segmentId :: string
  le_quote :: string
  le_confidence :: rat

record ReportItem =
  dimensionKey :: string
  item_score :: rat
  claim :: string
  item_evidence :: "ReportEvidence list"

record LegacyReportResponseBody =
  summary :: string
  items :: "ReportItem list"

definition isLegacyEvidence :: "json \<Rightarrow> bool" where
  "isLegacyEvidence entry =
     (isRecord (Some entry) \<and>
      isNonEmptyString (getField entry ''segmentId'') \<and>
      isString (getField entry ''quote'') \<and>
      isFiniteNumber (getField entry ''confidence''))"

definition isLegacyItem :: "json \<Rightarrow> bool" where
  "isLegacyItem item =
     (if \<not> isRecord (Some item) then False
      else if \<not> isNonEmptyString (getField item ''dimensionKey'') \<or>
              \<not> isFiniteNumber (getField item ''score'') \<or>
              \<not> isString (getField item ''claim'') \<or>
              \<not> isArray (getField item ''evidence'')
      then False
      else list_all isLegacyEvidence (elems (getField item ''evidence'')))"

definition isLegacyReportResponseBody :: "json option \<Rightarrow> bool" where
  "isLegacyReportResponseBody v =
     (if \<not> isRecord v then False
      else if \<not> isString (field v ''summary'') \<or> \<not> isArray (field v ''items'') then False
      else list_all isLegacyItem (elems (field v ''items'')))"

text \<open>The typed view of a value that passed \<^verbatim>\<open>isLegacyReportResponseBody\<close>.\<close>

definition stringOf :: "json option \<Rightarrow> string" where
  "stringOf v = (case v of Some (JStr s) \<Rightarrow> s | _ \<Rightarrow> [])"

definition numberOf :: "json option \<Rightarrow> rat" where
  "numberOf v = (case v of Some (JNum n) \<Rightarrow> n | _ \<Rightarrow> 0)"

definition asLegacyReport :: "json \<Rightarrow> LegacyReportResponseBody" where
  "asLegacyReport v =
     \<lparr> summary = stringOf (getField v ''summary''),
       items = map (\<lambda>item.
           \<lparr> dimensionKey = stringOf (getField item ''dimensionKey''),
             item_score = numberOf (getField item ''score''),
             claim = stringOf (getField item ''claim''),
             item_evidence = map (\<lambda>entry.
                 \<lparr> le_segmentId = stringOf (getField entry ''segmentId''),
                   le_quote = stringOf (getField entry ''quote''),
                   le_confidence = numberOf (getField entry ''confidence'') \<rparr>)
               (elems (getField item ''evidence'')) \<rparr>)
         (elems (getField v ''items'')) \<rparr>"

text \<open>One element of \<^verbatim>\<open>modernLike.dimensions\<close>; \<^verbatim>\<open>new Map(...)\<close> keeps the last item under
  each key.\<close>

definition legacyDimension ::
  "(string \<Rightarrow> rat option) \<Rightarrow> NormalizeContext \<Rightarrow> (string \<Rightarrow> ReportItem option) \<Rightarrow> ReportDimension
     \<Rightarrow> ReportDimensionAssessment" where
  "legacyDimension N context itemByKey descriptor =
     (let legacyItem = itemByKey (dim_key descriptor);
          evidenceEntries =
            map_option (\<lambda>item. map (\<lambda>entry.
                \<lparr> ev_segmentId = le_segmentId entry,
                  ev_quote = toMaxWords (le_quote entry) 25,
                  ev_interpretation = ''Legacy evidence mapped from prior report format.'',
                  ev_strength = Medium,
                  ev_relevance = (case toRelevance N (Some (JNum (le_confidence entry))) of
                                    Some r \<Rightarrow> r | None \<Rightarrow> 0.65) \<rparr>) (item_evidence item))
              legacyItem;
          sc = map_option (\<lambda>item. clamp (jsRound (item_score item)) 1 5) legacyItem
      in \<lparr> da_id = dim_key descriptor,
           da_label = dim_label descriptor,
           score = sc,
           notObserved = (case legacyItem of Some item \<Rightarrow> False | None \<Rightarrow> True),
           confidence = (case legacyItem of Some item \<Rightarrow> 66 | None \<Rightarrow> 38),
           anchors = createDefaultAnchors (dim_label descriptor) (dim_description descriptor),
           missingSignals =
             (case legacyItem of
                Some item \<Rightarrow> [''Add stronger quantified impact and clearer tradeoff framing.'']
              | None \<Rightarrow> [''No direct signal observed for '' @ dim_label descriptor @ ''.'']),
           evidence = (case evidenceEntries of Some es \<Rightarrow> es | None \<Rightarrow> []),
           evidenceCoverage =
             \<lparr> citedSegmentCount = (case evidenceEntries of Some es \<Rightarrow> length es | None \<Rightarrow> 0),
               availableSegmentCount = ctx_availableSegmentCount context \<rparr>,
           observedSignals =
             (case legacyItem of
                Some item \<Rightarrow> [claim item, ''Legacy score converted to scorecard signals.'']
              | None \<Rightarrow> [''No signal observed in legacy report for this dimension.'',
                         ''Needs follow-up probing.'']),
           concerns =
             (case legacyItem of
                Some item \<Rightarrow> [''Legacy report lacked explicit concerns; added calibration-safe default.'']
              | None \<Rightarrow> [''No direct evidence available for '' @ dim_label descriptor @ ''.'']),
           counterSignals = [],
           observations =
             (case legacyItem of
                Some item \<Rightarrow> [claim item, ''Legacy report migrated into anchor-based rubric format.'']
              | None \<Rightarrow> [''Legacy report had no matching item for this dimension.'',
                         ''Further probing required.'']),
           anchorAlignment =
             \<lparr> chosenLevel = (case sc of Some s \<Rightarrow> s | None \<Rightarrow> 3),
               whyMeets = (case legacyItem of Some item \<Rightarrow> [claim item]
                           | None \<Rightarrow> [''Not enough evidence to assign a level.'']),
               whyNotHigher = [''Need more specific evidence and measurable impact statements.''] \<rparr>,
           evidenceQuality = (case legacyItem of Some item \<Rightarrow> 0.64 | None \<Rightarrow> 0.3),
           consistency = (case legacyItem of Some item \<Rightarrow> 0.6 | None \<Rightarrow> 0.35),
           probes = [''What specific metric changed because of your approach?'',
                     ''Which stakeholder tradeoff did you explicitly manage?''],
           whatWouldChangeScore =
             \<lparr> wcs_up = [''Add a quantified outcome and a clear decision rationale.''],
               wcs_down = [''Remove concrete examples or rely on unsupported claims.''] \<rparr> \<rparr>)"

definition fromLegacyReport ::
  "(string \<Rightarrow> rat option) \<Rightarrow> LegacyReportResponseBody \<Rightarrow> NormalizeOptions
     \<Rightarrow> ModernReportResponseBody" where
  "fromLegacyReport N report options =
     (let context = normalizeOptions options;
          legacyItems = items report;
          itemByKey = map_of (rev (map (\<lambda>item. (dimensionKey item, item)) legacyItems));
          modernLike =
            JObj [(''overallSummary'', JStr (summary report)),
                  (''dimensions'',
                     JArr (map (\<lambda>descriptor.
                                  jsonOfAssessment (legacyDimension N context itemByKey descriptor))
                               (ctx_dimensions context)))]
      in normalizeModernReport N modernLike context)"

section \<open>Mock generator\<close>

definition getDimensionScoreForMock :: "nat \<Rightarrow> int" where
  "getDimensionScoreForMock index = [4, 3, 5, 2] ! (index mod length [4, 3, 5, 2 :: int])"

definition createMockDimension ::
  "ReportDimension \<Rightarrow> nat \<Rightarrow> NormalizeContext \<Rightarrow> bool \<Rightarrow> ReportDimensionAssessment" where
  "createMockDimension descriptor dimensionIndex context forceNotObserved =
     (let anch = createDefaultAnchors (dim_label descriptor) (dim_description descriptor) in
      if forceNotObserved then
        \<lparr> da_id = dim_key descriptor,
          da_label = dim_label descriptor,
          score = None,
          notObserved = True,
          confidence = 34,
          anchors = anch,
          missingSignals =
            [''No transcript segment clearly demonstrates '' @ dim_label descriptor @ ''.'',
             ''Need a concrete example with role, action, and measurable result.''],
          evidence = [],
          evidenceCoverage = \<lparr> citedSegmentCount = 0,
                               availableSegmentCount = ctx_availableSegmentCount context \<rparr>,
          observedSignals =
            [''No specific statement in transcript demonstrates '' @ dim_label descriptor @ ''.'',
             ''Candidate response did not provide enough behavioral detail for this dimension.''],
          concerns =
            [''Core signal for '' @ dim_label descriptor @ '' is missing.'',
             ''Recommendation is calibrated downward until this is observed.''],
          counterSignals = [''Some adjacent signals appear, but they are too indirect to score.''],
          observations =
            [''Current answer does not provide direct behavioral evidence for '' @
               dim_label descriptor @ ''.'',
             ''Interviewer should probe for a specific situation and outcome.''],
          anchorAlignment =
            \<lparr> chosenLevel = 2,
              whyMeets = [''Only partial or indirect signals were present in the response.''],
              whyNotHigher = [''No concrete segment linked to this dimension was observed.''] \<rparr>,
          evidenceQuality = 0.22,
          consistency = 0.31,
          probes =
            [''Can you share one example that directly demonstrates '' @ dim_label descriptor @ ''?'',
             ''What did you personally do, and what changed as a result?''],
          whatWouldChangeScore =
            \<lparr> wcs_up = [''Provide a specific scenario with measurable impact and clear ownership.''],
              wcs_down = [''Continue with abstract statements without role-specific actions.''] \<rparr> \<rparr>
      else
        (let fallbackSegments = pickFallbackEvidenceSegments context dimensionIndex 2;
             evid = map (\<lambda>(evidenceIndex, segment).
                      \<lparr> ev_segmentId = seg_id segment,
                        ev_quote = toMaxWords (seg_text segment) 25,
                        ev_interpretation = dim_label descriptor @
                          '' is supported by concrete action and outcome language in this segment.'',
                        ev_strength = (if evidenceIndex = 0 then Strong else Medium),
                        ev_relevance = clamp (0.7 - of_nat evidenceIndex * 0.08 +
                                              of_nat dimensionIndex * 0.03) 0.45 0.92 \<rparr>)
                    (enumerate 0 fallbackSegments);
             sc = getDimensionScoreForMock dimensionIndex;
             cited = length (uniq (map ev_segmentId evid));
             cRatio = (if ctx_availableSegmentCount context > 0
                       then of_nat cited / of_nat (ctx_availableSegmentCount context)
                       else 0);
             evQuality = clamp (foldl (\<lambda>sum entry. sum + ev_relevance entry) 0 evid /
                                of_nat (max 1 (length evid))) 0 1;
             consist = clamp (0.56 + (of_int sc - 2) * 0.08) 0 1;
             conf = jsRound (clamp ((evQuality * 0.45 + consist * 0.35 + cRatio * 0.2) * 100) 0 100)
         in \<lparr> da_id = dim_key descriptor,
              da_label = dim_label descriptor,
              score = Some sc,
              notObserved = False,
              confidence = conf,
              anchors = anch,
              missingSignals =
                [''Add one more quantified outcome to increase anchor certainty.'',
                 ''Clarify rejected alternatives and why they were deprioritized.''],
              evidence = evid,
              evidenceCoverage = \<lparr> citedSegmentCount = cited,
                                   availableSegmentCount = ctx_availableSegmentCount context \<rparr>,
              observedSignals =
                [''Provides a concrete example that demonstrates '' @ dim_label descriptor @ ''.'',
                 ''Describes tradeoffs and outcomes with enough specificity for scoring.'',
                 ''Evidence references candidate-owned actions instead of generic team statements.''],
              concerns =
                [''Could include clearer baseline metrics to strengthen comparability.'',
                 ''Would benefit from one additional example under stronger constraints.''],
              counterSignals = [''Some impact claims remain directional rather than fully quantified.''],
              observations =
                [dim_label descriptor @
                   '' is demonstrated with specific actions in cited transcript segments.'',
                 ''Reasoning is mostly coherent but could better quantify downstream impact.'',
                 ''Decision framing is credible and tied to candidate-owned execution.''],
              anchorAlignment =
                \<lparr> chosenLevel = sc,
                  whyMeets =
                    [''Cited evidence aligns with the selected anchor level through concrete behaviors.'',
                     ''Transcript includes explicit context, action, and outcome links.''],
                  whyNotHigher =
                    [''Evidence breadth is limited; additional scenarios would increase confidence.'',
                     ''Some claims would be stronger with objective metrics.''] \<rparr>,
              evidenceQuality = evQuality,
              consistency = consist,
              probes =
                [''What was the hardest tradeoff you made, and how did you validate it?'',
                 ''Which metric or signal best proved your approach worked?'',
                 ''If you repeated this now, what would you change first?''],
              whatWouldChangeScore =
                \<lparr> wcs_up =
                    [''Show a second independent example with equal rigor and measurable impact.'',
                     ''Quantify stakeholder outcomes and include explicit risk mitigation choices.''],
                  wcs_down =
                    [''Rely on generic claims that are not tied to transcript evidence.'',
                     ''Contradict key details across examples without reconciliation.''] \<rparr> \<rparr>))"

record MockTopLevel =
  mt_overallSummary :: string
  mt_overallRecommendation :: OverallRecommendation
  mt_leveling :: ReportLeveling
  mt_calibrationNotes :: "string list"
  mt_risks :: "string list"
  mt_followUps :: "string list"
  mt_decisionRationale :: "string list"
  mt_keyStrengths :: "string list"
  mt_keyRisks :: "string list"
  mt_mustFixToHire :: "string list"

definition createMockTopLevel :: "string \<Rightarrow> ReportDimensionAssessment list \<Rightarrow> MockTopLevel" where
  "createMockTopLevel qText dims =
     (let calibrated = deriveCalibratedRecommendation dims;
          rec = recommendation calibrated;
          lev = deriveLeveling (weightedScore calibrated);
          strengths =
            take 5 (map (\<lambda>d. da_label d @ '': evidence supports higher-anchor behavior.'')
                      (filter (\<lambda>d. \<not> notObserved d \<and> (case score d of Some s \<Rightarrow> s | None \<Rightarrow> 0) \<ge> 4)
                         dims));
          strengthFallbackPool =
            strengths @
            [''Candidate provides concrete behavior tied to at least one measurable outcome.'',
             ''Evidence includes explicit ownership and decision rationale.'',
             ''Communication clarity is sufficient for interviewer calibration.''];
          rsk =
            take 4 (map (\<lambda>d. if notObserved d
                              then da_label d @
                                '': not observed in this response; hiring risk remains unvalidated.''
                              else da_label d @
                                '': score is currently below hiring bar due to weak evidence.'')
                      (filter (\<lambda>d. notObserved d \<or> (case score d of Some s \<Rightarrow> s | None \<Rightarrow> 5) \<le> 2)
                         dims));
          riskFallbackPool =
            rsk @
            [''Coverage is not broad enough to remove all uncertainty for final recommendation.'',
             ''Some evidence is medium-strength and needs corroboration in follow-up rounds.''];
          fUps = take 5 (concat (map probes dims));
          mustFix =
            (if rec = StrongHire \<or> rec = Hire then []
             else [''Demonstrate the not-observed dimension with one concrete example.'',
                   ''Increase evidence quality by adding measurable outcomes tied to actions.''])
      in \<lparr> mt_overallSummary =
             ''Mock hiring-loop summary for '' @ [CHR 0x22] @ qText @ [CHR 0x22] @
             '': anchored scoring is based on segment-linked evidence and interviewer-style rationale.'',
           mt_overallRecommendation = rec,
           mt_leveling = lev,
           mt_calibrationNotes =
             ensureMinItems (cal_notes calibrated)
               [''Calibration adjusts recommendation when core signals are missing or evidence coverage is thin.'',
                ''NotObserved dimensions reduce confidence and cap recommendation.''] 2 6,
           mt_risks = ensureMinItems rsk
                        [''No immediate blockers identified from this single response.''] 1 6,
           mt_followUps = ensureMinItems fUps
                            [''What would you do differently in hindsight, and why?''] 1 6,
           mt_decisionRationale =
             [''Recommendation '' @ recommendationToString rec @
                '' is driven by weighted dimension scores and calibration rules.'',
              ''Confidence weights evidence quality, cross-segment consistency, and citation coverage.'',
              ''One dimension is intentionally marked not observed to model realistic interviewer uncertainty.''],
           mt_keyStrengths =
             ensureMinItems strengthFallbackPool
               [''Response includes at least one concrete, evidence-backed decision narrative.''] 3 5,
           mt_keyRisks =
             ensureMinItems riskFallbackPool
               [''Insufficient behavioral evidence in at least one dimension.''] 2 4,
           mt_mustFixToHire = mustFix \<rparr>)"

definition createMockReport :: "ReportRequestBody \<Rightarrow> ModernReportResponseBody" where
  "createMockReport requestBody =
     (let context = normalizedContextFromRequest requestBody;
          notObservedIndex =
            (if length (ctx_dimensions context) \<ge> 3
             then int (length (ctx_dimensions context)) - 1 else - 1);
          dims = map (\<lambda>(index, descriptor).
                        createMockDimension descriptor index context (int index = notObservedIndex))
                     (enumerate 0 (ctx_dimensions context));
          topLevel = createMockTopLevel (questionText requestBody) dims;
          cm = createCoverageMap dims (ctx_segments context)
      in \<lparr> overallSummary = mt_overallSummary topLevel,
           overallRecommendation = mt_overallRecommendation topLevel,
           risks = mt_risks topLevel,
           followUps = mt_followUps topLevel,
           dimensions = dims,
           decisionRationale = mt_decisionRationale topLevel,
           leveling = mt_leveling topLevel,
           calibrationNotes = mt_calibrationNotes topLevel,
           keyStrengths = mt_keyStrengths topLevel,
           keyRisks = mt_keyRisks topLevel,
           mustFixToHire = mt_mustFixToHire topLevel,
           coverageMap = cm \<rparr>)"

section \<open>Shape detection\<close>

definition isStringArrayOrUndefined :: "json option \<Rightarrow> bool" where
  "isStringArrayOrUndefined v =
     (case v of
        None \<Rightarrow> True
      | Some (JArr xs) \<Rightarrow> list_all (\<lambda>entry. isString (Some entry)) xs
      | _ \<Rightarrow> False)"

definition isModernEvidence :: "json \<Rightarrow> bool" where
  "isModernEvidence entry =
     (if \<not> isRecord (Some entry) then False
      else
        (let strengthValid =
               (getField entry ''strength'' = None \<or>
                getField entry ''strength'' = Some (JStr ''weak'') \<or>
                getField entry ''strength'' = Some (JStr ''medium'') \<or>
                getField entry ''strength'' = Some (JStr ''strong''));
             relevanceValid =
               (getField entry ''relevance'' = None \<or> isFiniteNumber (getField entry ''relevance''))
         in isNonEmptyString (getField entry ''segmentId'') \<and>
            isString (getField entry ''quote'') \<and>
            strengthValid \<and> relevanceValid \<and>
            (getField entry ''interpretation'' = None \<or> isString (getField entry ''interpretation''))))"

definition isModernDimensionAssessment :: "json \<Rightarrow> bool" where
  "isModernDimensionAssessment v =
     (if \<not> isRecord (Some v) then False
      else
        (let scoreIsValid =
               (getField v ''score'' = Some JNull \<or>
                (case getField v ''score'' of Some (JNum s) \<Rightarrow> s \<ge> 1 \<and> s \<le> 5 | _ \<Rightarrow> False))
         in if \<not> isNonEmptyString (getField v ''id'') \<or>
               \<not> isNonEmptyString (getField v ''label'') \<or>
               \<not> scoreIsValid \<or>
               (case getField v ''notObserved'' of Some (JBool b) \<Rightarrow> False | _ \<Rightarrow> True) \<or>
               \<not> isFiniteNumber (getField v ''confidence'') \<or>
               \<not> isRecord (getField v ''anchors'') \<or>
               \<not> isArray (getField v ''missingSignals'') \<or>
               \<not> isArray (getField v ''evidence'') \<or>
               \<not> isRecord (getField v ''evidenceCoverage'')
            then False
            else if \<not> (isString (field (getField v ''anchors'') ''1'') \<and>
                         isString (field (getField v ''anchors'') ''2'') \<and>
                         isString (field (getField v ''anchors'') ''3'') \<and>
                         isString (field (getField v ''anchors'') ''4'') \<and>
                         isString (field (getField v ''anchors'') ''5''))
            then False
            else if \<not> isFiniteNumber (field (getField v ''evidenceCoverage'') ''citedSegmentCount'') \<or>
                    \<not> isFiniteNumber (field (getField v ''evidenceCoverage'') ''availableSegmentCount'')
            then False
            else if \<not> list_all isStringArrayOrUndefined
                        [getField v ''observedSignals'', getField v ''concerns'',
                         getField v ''counterSignals'', getField v ''observations'',
                         getField v ''probes'', getField v ''missingSignals'']
            then False
            else list_all isModernEvidence (elems (getField v ''evidence''))))"

text \<open>\<^verbatim>\<open>Object.values\<close> of a value that passed \<^verbatim>\<open>isRecord\<close>.\<close>

fun objectValues :: "json option \<Rightarrow> json list" where
  "objectValues (Some (JObj fs)) = map (\<lambda>k. the (map_of fs k)) (uniq (map fst fs))"
| "objectValues (Some (JArr xs)) = xs"
| "objectValues _ = []"

definition isCoverageMap :: "json option \<Rightarrow> bool" where
  "isCoverageMap v =
     (if \<not> isRecord v then False
      else if \<not> isRecord (field v ''byDimension'') \<or> \<not> isRecord (field v ''bySegment'') then False
      else if \<not> list_all (\<lambda>entry.
                  isRecord (Some entry) \<and>
                  isArray (getField entry ''segmentIds'') \<and>
                  list_all (\<lambda>segmentId. isString (Some segmentId)) (elems (getField entry ''segmentIds'')) \<and>
                  isFiniteNumber (getField entry ''coveragePct''))
                (objectValues (field v ''byDimension''))
      then False
      else list_all (\<lambda>entry.
                  isRecord (Some entry) \<and>
                  isArray (getField entry ''dimensions'') \<and>
                  list_all (\<lambda>dimensionId. isString (Some dimensionId))
                    (elems (getField entry ''dimensions'')))
                (objectValues (field v ''bySegment'')))"

definition isModernReportResponseBody :: "json option \<Rightarrow> bool" where
  "isModernReportResponseBody v =
     (if \<not> isRecord v then False
      else if \<not> isString (field v ''overallSummary'') \<or>
              toOverallRecommendation (field v ''overallRecommendation'') = None \<or>
              \<not> isArray (field v ''risks'') \<or>
              \<not> isArray (field v ''followUps'') \<or>
              \<not> isArray (field v ''dimensions'')
      then False
      else if \<not> (list_all (\<lambda>entry. isString (Some entry)) (elems (field v ''risks'')) \<and>
                   list_all (\<lambda>entry. isString (Some entry)) (elems (field v ''followUps'')))
      then False
      else if \<not> list_all isModernDimensionAssessment (elems (field v ''dimensions'')) then False
      else if field v ''decisionRationale'' \<noteq> None \<and> \<not> isArray (field v ''decisionRationale'')
      then False
      else if field v ''calibrationNotes'' \<noteq> None \<and> \<not> isArray (field v ''calibrationNotes'')
      then False
      else if field v ''keyStrengths'' \<noteq> None \<and> \<not> isArray (field v ''keyStrengths'') then False
      else if field v ''keyRisks'' \<noteq> None \<and> \<not> isArray (field v ''keyRisks'') then False
      else if field v ''mustFixToHire'' \<noteq> None \<and> \<not> isArray (field v ''mustFixToHire'') then False
      else if \<not> list_all isStringArrayOrUndefined
                  [field v ''decisionRationale'', field v ''calibrationNotes'',
                   field v ''keyStrengths'', field v ''keyRisks'', field v ''mustFixToHire'']
      then False
      else if field v ''coverageMap'' \<noteq> None \<and> \<not> isCoverageMap (field v ''coverageMap'') then False
      else if field v ''leveling'' \<noteq> None \<and>
              (\<not> isRecord (field v ''leveling'') \<or>
               \<not> isNonEmptyString (field (field v ''leveling'') ''role'') \<or>
               toReportLevel (field (field v ''leveling'') ''level'') = None)
      then False
      else True)"

definition isReportResponseBody :: "json option \<Rightarrow> bool" where
  "isReportResponseBody v = (isLegacyReportResponseBody v \<or> isModernReportResponseBody v)"

section \<open>Entry points\<close>

text \<open>\<^verbatim>\<open>toModernReportResponse\<close>, called by the review page on a value that passed
  \<^verbatim>\<open>isReportResponseBody\<close>.\<close>

definition toModernReportResponse ::
  "(string \<Rightarrow> rat option) \<Rightarrow> json \<Rightarrow> NormalizeOptions \<Rightarrow> ModernReportResponseBody" where
  "toModernReportResponse N report options =
     (if isLegacyReportResponseBody (Some report)
      then fromLegacyReport N (asLegacyReport report) options
      else normalizeModernReport N report (normalizeOptions options))"

text \<open>The payload is \<open>None\<close> when it is \<^verbatim>\<open>undefined\<close>.\<close>

definition normalizeFromUnknown ::
  "(string \<Rightarrow> rat option) \<Rightarrow> json option \<Rightarrow> NormalizeContext \<Rightarrow> ModernReportResponseBody" where
  "normalizeFromUnknown N payload context =
     (if isLegacyReportResponseBody payload then
        fromLegacyReport N (asLegacyReport (the payload))
          \<lparr> opt_dimensions = ctx_dimensions context,
            opt_availableSegmentCount = ctx_availableSegmentCount context,
            opt_segments = Some (ctx_segments context) \<rparr>
      else if isModernReportResponseBody payload then
        normalizeModernReport N (the payload) context
      else if isRecord payload then
        normalizeModernReport N (the payload) context
      else
        createMockReport
          \<lparr> questionId = ''unknown'',
            questionText = ''Unknown question'',
            req_segments = ctx_segments context,
            rubric_dimensions = ctx_dimensions context \<rparr>)"

definition normalizeReportResponse ::
  "(string \<Rightarrow> rat option) \<Rightarrow> json option \<Rightarrow> ReportRequestBody \<Rightarrow> ModernReportResponseBody" where
  "normalizeReportResponse N payload requestBody =
     (let context = normalizedContextFromRequest requestBody;
          normalized = normalizeFromUnknown N payload context
      in normalizeModernReport N (jsonOfReport normalized) context)"

section \<open>Sample data of the repository\<close>

definition DEFAULT_RUBRIC_DIMENSIONS :: "ReportDimension list" where
  "DEFAULT_RUBRIC_DIMENSIONS =
     [\<lparr> dim_key = ''clarity'', dim_label = ''Communication Clarity'',
        dim_description =
          ''How clearly the candidate explains context, actions, and outcomes with concrete detail.'' \<rparr>,
      \<lparr> dim_key = ''problemSolving'', dim_label = ''Problem Solving'',
        dim_description =
          ''How effectively the candidate frames ambiguity, evaluates options, and justifies decisions.'' \<rparr>,
      \<lparr> dim_key = ''ownership'', dim_label = ''Ownership'',
        dim_description =
          ''How strongly the candidate demonstrates accountability, initiative, and measurable follow-through.'' \<rparr>,
      \<lparr> dim_key = ''collaboration'', dim_label = ''Collaboration'',
        dim_description =
          ''How well the candidate aligns stakeholders, handles disagreement, and drives execution with others.'' \<rparr>]"

text \<open>The request of the README's \<^verbatim>\<open>curl\<close> example.\<close>

definition readmeRequest :: ReportRequestBody where
  "readmeRequest =
     \<lparr> questionId = ''1'', questionText = ''Q'',
       req_segments = [\<lparr> seg_id = ''s1'', seg_start = 0, seg_end = 1, seg_text = ''hello'' \<rparr>],
       rubric_dimensions =
         [\<lparr> dim_key = ''clarity'', dim_label = ''Clarity'',
            dim_description = ''Clear communication'' \<rparr>] \<rparr>"

text \<open>The default rubric with a transcript of three segments.\<close>

definition sampleRequest :: ReportRequestBody where
  "sampleRequest =
     \<lparr> questionId = ''1'', questionText = ''Q'',
       req_segments =
         [\<lparr> seg_id = ''s1'', seg_start = 0, seg_end = 1, seg_text = ''hello'' \<rparr>,
          \<lparr> seg_id = ''s2'', seg_start = 1, seg_end = 3, seg_text = ''I led the migration'' \<rparr>,
          \<lparr> seg_id = ''s3'', seg_start = 3, seg_end = 5, seg_text = ''latency dropped by half'' \<rparr>],
       rubric_dimensions = DEFAULT_RUBRIC_DIMENSIONS \<rparr>"

text \<open>A sample instance of the built-in \<^verbatim>\<open>Number(s)\<close> for the examples: the strings of
  decimal digits, with their value. The sample payloads hold no numeric strings.\<close>

definition decimalNumber :: "string \<Rightarrow> rat option" where
  "decimalNumber s =
     (if s \<noteq> [] \<and> list_all (\<lambda>c. c \<in> set ''0123456789'') s
      then Some (of_nat (foldl (\<lambda>a c. 10 * a + (of_char c - 48)) 0 s))
      else None)"

text \<open>Two assessments as the normalizer returns them for the default rubric and the
  three-segment transcript: clarity scored 5 and collaboration scored 1.\<close>

definition highClarity :: ReportDimensionAssessment where
  "highClarity =
     normalizeDimension decimalNumber
       (Some (JObj [(''id'', JStr ''clarity''), (''score'', JNum 5)]))
       (DEFAULT_RUBRIC_DIMENSIONS ! 0) 0 (normalizedContextFromRequest sampleRequest)"

definition lowCollaboration :: ReportDimensionAssessment where
  "lowCollaboration =
     normalizeDimension decimalNumber
       (Some (JObj [(''id'', JStr ''collaboration''), (''score'', JNum 1)]))
       (DEFAULT_RUBRIC_DIMENSIONS ! 3) 3 (normalizedContextFromRequest sampleRequest)"

section \<open>Basic facts\<close>

lemma rank_capRecommendation:
  "recommendationRank (capRecommendation v m) = min (recommendationRank v) (recommendationRank m)"
  by (simp add: capRecommendation_def min_def)

lemma rank_le_4: "recommendationRank r \<le> 4"
  by (cases r) auto

lemma foldl_plus_sum_list: "foldl (+) (a::rat) xs = a + sum_list xs"
  by (induction xs arbitrary: a) (auto simp: algebra_simps)




section \<open>Calibration caps\<close>

lemma foldl_weightedTotalsStep:
  "foldl weightedTotalsStep acc xs =
     (fst acc + sum_list (map (\<lambda>d. weightForDimension (da_id d) *
                                of_int (case score d of Some s \<Rightarrow> s | None \<Rightarrow> 0)) xs),
      snd acc + sum_list (map (\<lambda>d. weightForDimension (da_id d)) xs))"
  by (induction xs arbitrary: acc) (simp_all add: weightedTotalsStep_def Let_def algebra_simps)

lemma weightForDimension_pos: "0 < weightForDimension k"
  by (simp add: weightForDimension_def)

lemma sum_weights_nonneg: "0 \<le> sum_list (map (\<lambda>d. weightForDimension (da_id d)) xs)"
  by (induction xs) (simp_all add: less_imp_le [OF weightForDimension_pos])

lemma weightedScore_observed:
  assumes "filter isObserved ds \<noteq> []"
  shows "weightedScore (deriveCalibratedRecommendation ds) =
           (if 0 < sum_list (map (\<lambda>d. weightForDimension (da_id d)) (filter isObserved ds))
            then sum_list (map (\<lambda>d. weightForDimension (da_id d) *
                                 of_int (case score d of Some s \<Rightarrow> s | None \<Rightarrow> 0))
                            (filter isObserved ds))
                 / sum_list (map (\<lambda>d. weightForDimension (da_id d)) (filter isObserved ds))
            else 0)"
  using assms
  by (simp add: deriveCalibratedRecommendation_def Let_def foldl_weightedTotalsStep)



text \<open>The rank of the result, when a dimension is observed: the minimum of the base rank
  and the limits of the caps that apply.\<close>

lemma deriveCalibratedRecommendation_rank:
  assumes "filter isObserved ds \<noteq> []"
  shows "recommendationRank (recommendation (deriveCalibratedRecommendation ds)) =
           min (recommendationRank (baseRecommendationFromWeightedScore
                  (weightedScore (deriveCalibratedRecommendation ds))))
            (min (if hasCoreNotObserved ds then 2 else 4)
              (min (if sum_list (map coverageRatioOf ds) / of_nat (length ds) < 0.35 then 2 else 4)
                   (if lowScoreCount ds \<ge> 2 then 1 else 4)))"
proof -
  from assms have ne: "ds \<noteq> []" by auto
  have b4: "\<And>r. min (recommendationRank r) 4 = recommendationRank r"
    using rank_le_4 by (simp add: min_def)
  show ?thesis
    using assms ne
    by (simp add: deriveCalibratedRecommendation_def Let_def rank_capRecommendation
          foldl_plus_sum_list b4 min.assoc)
qed



section \<open>Monotonicity of the calibration\<close>

lemma baseRecommendation_mono:
  "x \<le> y \<Longrightarrow> recommendationRank (baseRecommendationFromWeightedScore x)
             \<le> recommendationRank (baseRecommendationFromWeightedScore y)"
  by (simp add: baseRecommendationFromWeightedScore_def)

text \<open>
  Claim C2 as stated fails for the flip: marking an observed dimension not observed takes
  its score out of the weighted average. With clarity scored 5 and collaboration scored 1
  the recommendation is LeanNo; with collaboration flipped to not observed (score null,
  all else fixed) it is StrongHire.
\<close>

theorem flip_to_notObserved_raises_rank_counterexample:
  "isObserved lowCollaboration
   \<and> recommendation (deriveCalibratedRecommendation [highClarity, lowCollaboration]) = LeanNo
   \<and> recommendation (deriveCalibratedRecommendation
        [highClarity, lowCollaboration\<lparr> score := None, notObserved := True \<rparr>]) = StrongHire
   \<and> recommendationRank LeanNo < recommendationRank StrongHire"
  by code_simp

text \<open>
  Claim C2, amended. For every list of Dimension Assessments, decreasing the score of any
  one observed dimension, all else fixed, never increases the rank of the recommendation
  that \<open>deriveCalibratedRecommendation\<close> returns.
\<close>

theorem calibration_monotone_in_score:
  assumes no: "\<not> notObserved d" and sc: "score d = Some s" and le: "s' \<le> s"
  shows "recommendationRank (recommendation
           (deriveCalibratedRecommendation (xs @ d\<lparr> score := Some s' \<rparr> # ys)))
         \<le> recommendationRank (recommendation (deriveCalibratedRecommendation (xs @ d # ys)))"
proof -
  let ?d' = "d\<lparr> score := Some s' \<rparr>"
  let ?ds = "xs @ d # ys" and ?ds' = "xs @ ?d' # ys"
  let ?w = "\<lambda>d. weightForDimension (da_id d)"
  let ?ws = "\<lambda>d. weightForDimension (da_id d) * of_int (case score d of Some s \<Rightarrow> s | None \<Rightarrow> 0)"
  have od: "isObserved d" and od': "isObserved ?d'"
    using no sc by (simp_all add: isObserved_def)
  have f: "filter isObserved ?ds = filter isObserved xs @ d # filter isObserved ys"
    and f': "filter isObserved ?ds' = filter isObserved xs @ ?d' # filter isObserved ys"
    using od od' by simp_all
  have ne: "filter isObserved ?ds \<noteq> []" and ne': "filter isObserved ?ds' \<noteq> []"
    unfolding f f' by simp_all
  let ?A = "sum_list (map ?ws (filter isObserved xs)) + sum_list (map ?ws (filter isObserved ys))"
  let ?W = "sum_list (map ?w (filter isObserved xs)) + ?w d + sum_list (map ?w (filter isObserved ys))"
  have Wpos: "0 < ?W"
    using weightForDimension_pos [of "da_id d"]
      sum_weights_nonneg [of "filter isObserved xs"] sum_weights_nonneg [of "filter isObserved ys"]
    by linarith
  have W: "sum_list (map ?w (filter isObserved ?ds)) = ?W"
    and W': "sum_list (map ?w (filter isObserved ?ds')) = ?W"
    unfolding f f' by simp_all
  have N: "sum_list (map ?ws (filter isObserved ?ds)) = ?A + ?w d * of_int s"
    and N': "sum_list (map ?ws (filter isObserved ?ds')) = ?A + ?w d * of_int s'"
    unfolding f f' using sc by simp_all
  have "?w d * of_int s' \<le> ?w d * of_int s"
    using le weightForDimension_pos [of "da_id d"] by simp
  then have "(?A + ?w d * of_int s') / ?W \<le> (?A + ?w d * of_int s) / ?W"
    using Wpos by (simp add: divide_right_mono)
  then have ws: "weightedScore (deriveCalibratedRecommendation ?ds')
                 \<le> weightedScore (deriveCalibratedRecommendation ?ds)"
    unfolding weightedScore_observed [OF ne] weightedScore_observed [OF ne'] W W' N N'
    using Wpos by simp
  have cov: "map coverageRatioOf ?ds' = map coverageRatioOf ?ds"
    by (simp add: coverageRatioOf_def)
  have core: "hasCoreNotObserved ?ds' = hasCoreNotObserved ?ds"
    using no sc by (simp add: hasCoreNotObserved_def)
  have low: "lowScoreCount ?ds \<le> lowScoreCount ?ds'"
    using sc le by (simp add: lowScoreCount_def)
  have len: "length ?ds' = length ?ds" by simp
  show ?thesis
    unfolding deriveCalibratedRecommendation_rank [OF ne] deriveCalibratedRecommendation_rank [OF ne']
      cov core len
    using baseRecommendation_mono [OF ws] low
    by (auto simp: min_def)
qed

theorem calibration_monotone_in_score_witness:
  "\<not> notObserved highClarity \<and> score highClarity = Some 5 \<and> (3::int) \<le> 5
   \<and> recommendationRank (recommendation (deriveCalibratedRecommendation
        ([] @ highClarity\<lparr> score := Some 3 \<rparr> # [lowCollaboration])))
      \<le> recommendationRank (recommendation (deriveCalibratedRecommendation
        ([] @ highClarity # [lowCollaboration])))"
proof -
  have a: "\<not> notObserved highClarity" and b: "score highClarity = Some 5"
    by (simp_all add: highClarity_def normalizeDimension_def Let_def recordOrEmpty_def
          toFiniteNumber_def clamp_def jsRound_def)
  have c: "(3::int) \<le> 5" by simp
  from calibration_monotone_in_score [OF a b c, of "[]" "[lowCollaboration]"] a b
  show ?thesis by simp
qed

section \<open>Mock generator\<close>





section \<open>Completeness of normalization\<close>

lemma clamp_bounds: "lo \<le> hi \<Longrightarrow> lo \<le> clamp v lo hi \<and> clamp v lo hi \<le> hi"
  by (auto simp: clamp_def)
















lemma normalizeDimension_quality:
  "0 \<le> evidenceQuality (normalizeDimension N raw d i c) \<and> evidenceQuality (normalizeDimension N raw d i c) \<le> 1 \<and>
   0 \<le> consistency (normalizeDimension N raw d i c) \<and> consistency (normalizeDimension N raw d i c) \<le> 1"
  using clamp_bounds[of "0::rat" 1]
  by (simp add: normalizeDimension_def Let_def)








section \<open>The recommendation of the payload is ignored\<close>

lemma overallRecommendation_normalizeModernReport:
  "overallRecommendation (normalizeModernReport N src ctx) =
     recommendation (deriveCalibratedRecommendation (dimensions (normalizeModernReport N src ctx)))"
  by (simp add: normalizeModernReport_def Let_def)

lemma normalizeModernReport_cong:
  assumes "\<And>k. k \<noteq> ''overallRecommendation'' \<Longrightarrow> getField a k = getField b k"
  shows "normalizeModernReport N a ctx = normalizeModernReport N b ctx"
proof -
  have k: "getField a ''dimensions'' = getField b ''dimensions''"
    "getField a ''decisionRationale'' = getField b ''decisionRationale''"
    "getField a ''keyStrengths'' = getField b ''keyStrengths''"
    "getField a ''keyRisks'' = getField b ''keyRisks''"
    "getField a ''followUps'' = getField b ''followUps''"
    "getField a ''risks'' = getField b ''risks''"
    "getField a ''mustFixToHire'' = getField b ''mustFixToHire''"
    "getField a ''leveling'' = getField b ''leveling''"
    "getField a ''calibrationNotes'' = getField b ''calibrationNotes''"
    "getField a ''overallSummary'' = getField b ''overallSummary''"
    by (rule assms, simp)+
  have d: "normalizeDimensions N a ctx = normalizeDimensions N b ctx"
    by (simp add: normalizeDimensions_def k)
  have t: "\<And>ds r. buildTopLevelArrays a ds r = buildTopLevelArrays b ds r"
    by (simp add: buildTopLevelArrays_def k)
  show ?thesis
    by (simp add: normalizeModernReport_def d t k)
qed

lemma legacy_cong:
  assumes "\<And>k. k \<noteq> ''overallRecommendation'' \<Longrightarrow> map_of fs k = map_of fs' k"
  shows "isLegacyReportResponseBody (Some (JObj fs)) = isLegacyReportResponseBody (Some (JObj fs'))"
    and "asLegacyReport (JObj fs) = asLegacyReport (JObj fs')"
proof -
  have k: "map_of fs ''summary'' = map_of fs' ''summary''" "map_of fs ''items'' = map_of fs' ''items''"
    by (rule assms, simp)+
  show "isLegacyReportResponseBody (Some (JObj fs)) = isLegacyReportResponseBody (Some (JObj fs'))"
    by (simp add: isLegacyReportResponseBody_def field_def k)
  show "asLegacyReport (JObj fs) = asLegacyReport (JObj fs')"
    by (simp add: asLegacyReport_def k)
qed

text \<open>
  Claim C10. Two object payloads that agree on every property other than
  \<open>overallRecommendation\<close> (whatever value, or none, each has there) yield the same
  Scorecard under \<open>normalizeReportResponse\<close>; and for every payload the
  \<open>overallRecommendation\<close> of the result is the recommendation that
  \<open>deriveCalibratedRecommendation\<close> computes from the result's own dimensions.
\<close>

theorem overallRecommendation_not_taken_from_input:
  assumes "\<forall>k. k \<noteq> ''overallRecommendation'' \<longrightarrow> map_of fs k = map_of fs' k"
  shows "normalizeReportResponse N (Some (JObj fs)) req = normalizeReportResponse N (Some (JObj fs')) req
       \<and> overallRecommendation (normalizeReportResponse N payload req) =
           recommendation (deriveCalibratedRecommendation
             (dimensions (normalizeReportResponse N payload req)))"
proof
  have a: "\<And>k. k \<noteq> ''overallRecommendation'' \<Longrightarrow> map_of fs k = map_of fs' k"
    using assms by blast
  then have g: "\<And>k. k \<noteq> ''overallRecommendation'' \<Longrightarrow> getField (JObj fs) k = getField (JObj fs') k"
    by simp
  have "normalizeFromUnknown N (Some (JObj fs)) ctx = normalizeFromUnknown N (Some (JObj fs')) ctx" for ctx
    using legacy_cong[OF a] normalizeModernReport_cong[OF g, of N ctx]
    by (simp add: normalizeFromUnknown_def)
  then show "normalizeReportResponse N (Some (JObj fs)) req = normalizeReportResponse N (Some (JObj fs')) req"
    by (simp add: normalizeReportResponse_def)
  show "overallRecommendation (normalizeReportResponse N payload req) =
           recommendation (deriveCalibratedRecommendation
             (dimensions (normalizeReportResponse N payload req)))"
    by (simp add: normalizeReportResponse_def Let_def overallRecommendation_normalizeModernReport)
qed

theorem overallRecommendation_not_taken_from_input_witness:
  "normalizeReportResponse decimalNumber
        (Some (JObj [(''overallSummary'', JStr ''ok''), (''overallRecommendation'', JStr ''StrongHire'')]))
        readmeRequest =
     normalizeReportResponse decimalNumber
        (Some (JObj [(''overallSummary'', JStr ''ok''), (''overallRecommendation'', JStr ''No'')]))
        readmeRequest"
proof -
  have h: "\<forall>k. k \<noteq> ''overallRecommendation'' \<longrightarrow>
        map_of [(''overallSummary'', JStr ''ok''), (''overallRecommendation'', JStr ''StrongHire'')] k =
        map_of [(''overallSummary'', JStr ''ok''), (''overallRecommendation'', JStr ''No'')] k"
    by simp
  from overallRecommendation_not_taken_from_input [OF h, of decimalNumber readmeRequest]
  show ?thesis by blast
qed

section \<open>Duration basis\<close>

lemma foldl_max_Max:
  "foldl (\<lambda>m x. max m (f x)) (a::rat) xs = Max (insert a (f ` set xs))"
proof (induction xs arbitrary: a)
  case Nil
  show ?case by simp
next
  case (Cons x xs)
  have "Max (insert (max a (f x)) (f ` set xs)) = Max (insert a (insert (f x) (f ` set xs)))"
    by (cases "f ` set xs = {}") (simp_all add: max.assoc)
  then show ?case using Cons by simp
qed

text \<open>
  Claim C8 as stated fails: the duration basis is not floored at 1 second. A transcript
  whose last segment ends at half a second has a duration basis of half a second, in both
  copies, and a caller-supplied duration of a quarter of a second is used as it is.
\<close>

theorem duration_below_one_second_counterexample:
  "deriveDurationSeconds
     [\<lparr> seg_id = ''s1'', seg_start = 0, seg_end = 1 / 2, seg_text = ''hello'' \<rparr>] < 1
   \<and> coverage_deriveDurationSeconds
       [\<lparr> cs_id = ''s1'', cs_start = Fin 0, cs_end = Fin (1 / 2) \<rparr>] None < 1
   \<and> coverage_deriveDurationSeconds [] (Some (Fin (1 / 4))) < 1"
  by (simp add: deriveDurationSeconds_def coverage_deriveDurationSeconds_def)

text \<open>
  Claim C8, amended. The duration basis is strictly positive for every segment list
  (empty lists included), so the percentage division never divides by zero: in
  \<^verbatim>\<open>report.ts\<close> it is the maximum of the segment end times when that is positive and 1
  second otherwise; in \<^verbatim>\<open>coverage.ts\<close> it is the caller-supplied duration when that is
  finite and positive, else the maximum of the finite segment end times when that is
  positive, else 1 second.
\<close>

theorem duration_basis_positive:
  "0 < deriveDurationSeconds segments
   \<and> deriveDurationSeconds segments =
       (if 0 < Max (insert 0 (seg_end ` set segments))
        then Max (insert 0 (seg_end ` set segments)) else 1)
   \<and> 0 < coverage_deriveDurationSeconds csegments preferred
   \<and> coverage_deriveDurationSeconds csegments preferred =
       (let maxEnd = Max (insert 0 ((\<lambda>s. case cs_end s of Fin e \<Rightarrow> e | NotFinite \<Rightarrow> 0) ` set csegments))
        in case preferred of
             Some (Fin p) \<Rightarrow> if 0 < p then p else if 0 < maxEnd then maxEnd else 1
           | _ \<Rightarrow> if 0 < maxEnd then maxEnd else 1)"
proof (intro conjI)
  show a: "deriveDurationSeconds segments =
       (if 0 < Max (insert 0 (seg_end ` set segments))
        then Max (insert 0 (seg_end ` set segments)) else 1)"
    by (simp add: deriveDurationSeconds_def foldl_max_Max Let_def)
  show "0 < deriveDurationSeconds segments"
    unfolding a by simp
  show b: "coverage_deriveDurationSeconds csegments preferred =
       (let maxEnd = Max (insert 0 ((\<lambda>s. case cs_end s of Fin e \<Rightarrow> e | NotFinite \<Rightarrow> 0) ` set csegments))
        in case preferred of
             Some (Fin p) \<Rightarrow> if 0 < p then p else if 0 < maxEnd then maxEnd else 1
           | _ \<Rightarrow> if 0 < maxEnd then maxEnd else 1)"
    by (simp add: coverage_deriveDurationSeconds_def foldl_max_Max Let_def)
  show "0 < coverage_deriveDurationSeconds csegments preferred"
    unfolding b by (simp add: Let_def split: option.split number.split)
qed

theorem duration_basis_positive_witness:
  "0 < deriveDurationSeconds [] \<and> deriveDurationSeconds [] = 1
   \<and> 0 < coverage_deriveDurationSeconds
           [\<lparr> cs_id = ''s1'', cs_start = Fin 0, cs_end = NotFinite \<rparr>] (Some NotFinite)"
  using duration_basis_positive [of "[]" "[\<lparr> cs_id = ''s1'', cs_start = Fin 0, cs_end = NotFinite \<rparr>]"
          "Some NotFinite"]
  by simp

section \<open>Idempotence of the interval merge\<close>

text \<open>Every step of the sweep keeps consecutive output intervals further apart than the
  tolerance, and keeps the starts in the order of the input.\<close>

lemma mergeStep_separated:
  assumes "successively (\<lambda>a b. iv_end a + eps < iv_start b) merged"
  shows "successively (\<lambda>a b. iv_end a + eps < iv_start b) (mergeStep eps merged iv)"
proof (cases "merged = []")
  case True
  then show ?thesis by (simp add: mergeStep_def)
next
  case False
  then obtain ys l where m: "merged = ys @ [l]"
    by (metis append_butlast_last_id)
  show ?thesis
    using assms unfolding m
    by (cases "ys = []")
       (auto simp: mergeStep_def Let_def successively_append_iff not_le)
qed

lemma foldl_mergeStep_separated:
  "successively (\<lambda>a b. iv_end a + eps < iv_start b) merged \<Longrightarrow>
   successively (\<lambda>a b. iv_end a + eps < iv_start b) (foldl (mergeStep eps) merged xs)"
  by (induction xs arbitrary: merged) (simp_all add: mergeStep_separated)

lemma mergeStep_starts:
  "map iv_start (mergeStep eps merged iv) = map iv_start merged
   \<or> map iv_start (mergeStep eps merged iv) = map iv_start merged @ [iv_start iv]"
proof (cases "merged = []")
  case True
  then show ?thesis by (simp add: mergeStep_def)
next
  case False
  then obtain ys l where m: "merged = ys @ [l]"
    by (metis append_butlast_last_id)
  show ?thesis unfolding m by (simp add: mergeStep_def Let_def)
qed

lemma foldl_mergeStep_sorted:
  "sorted (map iv_start merged @ map iv_start xs) \<Longrightarrow>
   sorted (map iv_start (foldl (mergeStep eps) merged xs))"
proof (induction xs arbitrary: merged)
  case Nil
  then show ?case by simp
next
  case (Cons x xs)
  from mergeStep_starts [of eps merged x]
  have "sorted (map iv_start (mergeStep eps merged x) @ map iv_start xs)"
  proof
    assume e: "map iv_start (mergeStep eps merged x) = map iv_start merged"
    from Cons.prems show ?thesis
      unfolding e by (auto simp: sorted_append)
  next
    assume e: "map iv_start (mergeStep eps merged x) = map iv_start merged @ [iv_start x]"
    from Cons.prems show ?thesis
      unfolding e by simp
  qed
  then show ?case using Cons.IH by simp
qed

lemma foldl_mergeStep_separated_id:
  "successively (\<lambda>a b. iv_end a + eps < iv_start b) (merged @ xs) \<Longrightarrow>
   foldl (mergeStep eps) merged xs = merged @ xs"
proof (induction xs arbitrary: merged)
  case Nil
  then show ?case by simp
next
  case (Cons x xs)
  have step: "mergeStep eps merged x = merged @ [x]"
  proof (cases "merged = []")
    case True
    then show ?thesis by (simp add: mergeStep_def)
  next
    case False
    then obtain ys l where m: "merged = ys @ [l]"
      by (metis append_butlast_last_id)
    from Cons.prems have "iv_end l + eps < iv_start x"
      unfolding m by (simp add: successively_append_iff)
    then show ?thesis unfolding m by (simp add: mergeStep_def Let_def)
  qed
  from Cons.prems have "successively (\<lambda>a b. iv_end a + eps < iv_start b) ((merged @ [x]) @ xs)"
    by simp
  from Cons.IH [OF this] show ?case by (simp add: step)
qed

lemma mergeIntervals_twice:
  "mergeIntervals (mergeIntervals X eps) eps = mergeIntervals X eps"
proof (cases "X = []")
  case True
  then show ?thesis by (simp add: mergeIntervals_def)
next
  case False
  let ?out = "foldl (mergeStep eps) [] (sort_key iv_start X)"
  have out: "mergeIntervals X eps = ?out"
    using False by (simp add: mergeIntervals_def)
  have sep: "successively (\<lambda>a b. iv_end a + eps < iv_start b) ?out"
    by (rule foldl_mergeStep_separated) simp
  have srt: "sorted (map iv_start ?out)"
    by (rule foldl_mergeStep_sorted) simp
  have "foldl (mergeStep eps) [] (sort_key iv_start ?out) = ?out"
    using foldl_mergeStep_separated_id [of eps "[]" ?out] sep
    by (simp add: sort_key_id_if_sorted [OF srt])
  then show ?thesis
    unfolding out by (simp add: mergeIntervals_def)
qed

text \<open>The same three facts for the copy in \<^verbatim>\<open>coverage.ts\<close>.\<close>

lemma coverage_mergeStep_separated:
  assumes "successively (\<lambda>a b. ci_end a + eps < ci_start b) merged"
  shows "successively (\<lambda>a b. ci_end a + eps < ci_start b) (coverage_mergeStep eps merged iv)"
proof (cases "merged = []")
  case True
  then show ?thesis by (simp add: coverage_mergeStep_def)
next
  case False
  then obtain ys l where m: "merged = ys @ [l]"
    by (metis append_butlast_last_id)
  show ?thesis
    using assms unfolding m
    by (cases "ys = []")
       (auto simp: coverage_mergeStep_def Let_def successively_append_iff not_le)
qed

lemma foldl_coverage_mergeStep_separated:
  "successively (\<lambda>a b. ci_end a + eps < ci_start b) merged \<Longrightarrow>
   successively (\<lambda>a b. ci_end a + eps < ci_start b) (foldl (coverage_mergeStep eps) merged xs)"
  by (induction xs arbitrary: merged) (simp_all add: coverage_mergeStep_separated)

lemma coverage_mergeStep_starts:
  "map ci_start (coverage_mergeStep eps merged iv) = map ci_start merged
   \<or> map ci_start (coverage_mergeStep eps merged iv) = map ci_start merged @ [ci_start iv]"
proof (cases "merged = []")
  case True
  then show ?thesis by (simp add: coverage_mergeStep_def)
next
  case False
  then obtain ys l where m: "merged = ys @ [l]"
    by (metis append_butlast_last_id)
  show ?thesis unfolding m by (simp add: coverage_mergeStep_def Let_def)
qed

lemma foldl_coverage_mergeStep_sorted:
  "sorted (map ci_start merged @ map ci_start xs) \<Longrightarrow>
   sorted (map ci_start (foldl (coverage_mergeStep eps) merged xs))"
proof (induction xs arbitrary: merged)
  case Nil
  then show ?case by simp
next
  case (Cons x xs)
  from coverage_mergeStep_starts [of eps merged x]
  have "sorted (map ci_start (coverage_mergeStep eps merged x) @ map ci_start xs)"
  proof
    assume e: "map ci_start (coverage_mergeStep eps merged x) = map ci_start merged"
    from Cons.prems show ?thesis
      unfolding e by (auto simp: sorted_append)
  next
    assume e: "map ci_start (coverage_mergeStep eps merged x) = map ci_start merged @ [ci_start x]"
    from Cons.prems show ?thesis
      unfolding e by simp
  qed
  then show ?case using Cons.IH by simp
qed

lemma foldl_coverage_mergeStep_separated_id:
  "successively (\<lambda>a b. ci_end a + eps < ci_start b) (merged @ xs) \<Longrightarrow>
   foldl (coverage_mergeStep eps) merged xs = merged @ xs"
proof (induction xs arbitrary: merged)
  case Nil
  then show ?case by simp
next
  case (Cons x xs)
  have step: "coverage_mergeStep eps merged x = merged @ [x]"
  proof (cases "merged = []")
    case True
    then show ?thesis by (simp add: coverage_mergeStep_def)
  next
    case False
    then obtain ys l where m: "merged = ys @ [l]"
      by (metis append_butlast_last_id)
    from Cons.prems have "ci_end l + eps < ci_start x"
      unfolding m by (simp add: successively_append_iff)
    then show ?thesis unfolding m by (simp add: coverage_mergeStep_def Let_def)
  qed
  from Cons.prems have "successively (\<lambda>a b. ci_end a + eps < ci_start b) ((merged @ [x]) @ xs)"
    by simp
  from Cons.IH [OF this] show ?case by (simp add: step)
qed

lemma coverage_mergeIntervals_twice:
  "coverage_mergeIntervals (coverage_mergeIntervals Y eps) eps = coverage_mergeIntervals Y eps"
proof (cases "Y = []")
  case True
  then show ?thesis by (simp add: coverage_mergeIntervals_def)
next
  case False
  let ?out = "foldl (coverage_mergeStep eps) [] (sort_key ci_start Y)"
  have out: "coverage_mergeIntervals Y eps = ?out"
    using False by (simp add: coverage_mergeIntervals_def)
  have sep: "successively (\<lambda>a b. ci_end a + eps < ci_start b) ?out"
    by (rule foldl_coverage_mergeStep_separated) simp
  have srt: "sorted (map ci_start ?out)"
    by (rule foldl_coverage_mergeStep_sorted) simp
  have "foldl (coverage_mergeStep eps) [] (sort_key ci_start ?out) = ?out"
    using foldl_coverage_mergeStep_separated_id [of eps "[]" ?out] sep
    by (simp add: sort_key_id_if_sorted [OF srt])
  then show ?thesis
    unfolding out by (simp add: coverage_mergeIntervals_def)
qed

text \<open>
  Claim C5. \<open>mergeIntervals\<close> is idempotent: for every interval list and every tolerance,
  merging the output of a merge again returns that output unchanged; this holds for the
  copy in \<^verbatim>\<open>report.ts\<close> and for the copy in \<^verbatim>\<open>coverage.ts\<close>.
\<close>

theorem mergeIntervals_idempotent:
  "mergeIntervals (mergeIntervals X eps) eps = mergeIntervals X eps
   \<and> coverage_mergeIntervals (coverage_mergeIntervals Y eps) eps = coverage_mergeIntervals Y eps"
proof
  show "mergeIntervals (mergeIntervals X eps) eps = mergeIntervals X eps"
    by (rule mergeIntervals_twice)
  show "coverage_mergeIntervals (coverage_mergeIntervals Y eps) eps = coverage_mergeIntervals Y eps"
    by (rule coverage_mergeIntervals_twice)
qed

theorem mergeIntervals_idempotent_witness:
  "mergeIntervals [\<lparr> iv_start = 0, iv_end = 1 \<rparr>, \<lparr> iv_start = 1.02, iv_end = 2 \<rparr>] 0.05
     = [\<lparr> iv_start = 0, iv_end = 2 \<rparr>]
   \<and> mergeIntervals (mergeIntervals
        [\<lparr> iv_start = 0, iv_end = 1 \<rparr>, \<lparr> iv_start = 1.02, iv_end = 2 \<rparr>] 0.05) 0.05
     = [\<lparr> iv_start = 0, iv_end = 2 \<rparr>]"
proof -
  have m: "mergeIntervals [\<lparr> iv_start = 0, iv_end = 1 \<rparr>, \<lparr> iv_start = 1.02, iv_end = 2 \<rparr>] 0.05
     = [\<lparr> iv_start = 0, iv_end = 2 \<rparr>]"
    by (simp add: mergeIntervals_def mergeStep_def)
  from mergeIntervals_idempotent
         [of "[\<lparr> iv_start = 0, iv_end = 1 \<rparr>, \<lparr> iv_start = 1.02, iv_end = 2 \<rparr>]" "0.05"]
  show ?thesis using m by simp
qed

section \<open>Consistency of the coverage map\<close>













section \<open>Strength and relevance of evidence\<close>








section \<open>Back-fill of evidence\<close>

text \<open>
  Claim C7 fails on the code. The fallback picker starts at the dimension's own index
  and does not know which segments the kept entries cite; the caller then drops a picked
  segment that is already cited and asks for no replacement. With three segments
  available, index 0 and one valid candidate entry that cites the first segment, the
  evidence list has 1 entry, not \<open>min 2 3 = 2\<close>.
\<close>

theorem backfill_short_of_minimum:
  "normalizeEvidence decimalNumber
     (Some (JArr [JObj [(''segmentId'', JStr ''s1''), (''quote'', JStr ''hello'')]]))
     (normalizedContextFromRequest sampleRequest) 0 False ''Communication Clarity''
     = [\<lparr> ev_segmentId = ''s1'', ev_quote = ''hello'',
          ev_interpretation =
            ''Communication Clarity signal from candidate action and stated outcome in this segment.'',
          ev_strength = Medium, ev_relevance = 7 / 10 \<rparr>]
   \<and> min 2 (length (ctx_segments (normalizedContextFromRequest sampleRequest))) = 2
   \<and> pickFallbackEvidenceSegments (normalizedContextFromRequest sampleRequest) 0 1
     = [\<lparr> seg_id = ''s1'', seg_start = 0, seg_end = 1, seg_text = ''hello'' \<rparr>]"
  by code_simp

end
